theory Spec2Isabelle
  imports Complex_Main
begin

section \<open>ViewabilityHelper: which items of a virtualized list are viewable\<close>

text \<open>
  A shallow embedding of \<^verbatim>\<open>Libraries/CustomComponents/Lists/ViewabilityHelper.js\<close>.

  Conventions of the embedding.
  \<^item> Geometry, thresholds and timestamps are JavaScript numbers, that is IEEE 754
    doubles. The values handed to the helper (frame offsets and lengths, scroll offset,
    viewport height, thresholds, timestamps) are finite and are modelled as \<^typ>\<open>real\<close>.
    Every arithmetic operation of the source (\<^verbatim>\<open>+\<close>, \<^verbatim>\<open>-\<close>, \<^verbatim>\<open>*\<close>, \<^verbatim>\<open>/\<close>) rounds its exact
    result to the nearest double, ties to even (\<open>double_round\<close>); comparisons,
    \<^verbatim>\<open>Math.min\<close> and \<^verbatim>\<open>Math.max\<close> are exact. The division and the multiplication of
    \<^verbatim>\<open>_isViewable\<close> return a \<open>jsnum\<close>, which has the values infinity (division by zero,
    overflow) and NaN. The results of the additions and subtractions are numbers again:
    their operands are taken to be such that the result is below \<open>2 ^ 1024\<close> in
    magnitude. The sign of zero is not modelled.
  \<^item> Item counts and item indices are natural numbers.
  \<^item> An optional property of an object (\<^verbatim>\<open>x?: T\<close>, \<^verbatim>\<open>?T\<close>) is an \<^typ>\<open>'a option\<close>;
    \<^verbatim>\<open>x != null\<close> is \<open>x \<noteq> None\<close>.
  \<^item> \<^verbatim>\<open>invariant(cond, msg)\<close> throws when \<^verbatim>\<open>cond\<close> is falsy; a throw is a value
    of the type \<open>error\<close>.
  \<^item> The local variables \<^verbatim>\<open>top\<close> and \<^verbatim>\<open>last\<close> are written \<open>top'\<close> and \<open>last'\<close>, the
    plain names being constants of HOL.
  \<^item> A leading underscore is not part of an Isabelle name: the function \<^verbatim>\<open>_isViewable\<close>
    is \<open>isViewable\<close>, and the instance property \<^verbatim>\<open>this._timers\<close> is \<open>this_timers\<close>.
\<close>

subsection \<open>Numbers\<close>

text \<open>The number of binary digits of a positive integer.\<close>

function bit_length :: "int \<Rightarrow> int" where
  "bit_length n = (if n \<le> 0 then 0 else bit_length (n div 2) + 1)"
  by pat_completeness auto
termination
  by (relation "measure nat") auto

declare bit_length.simps [simp del]

definition pow2 :: "int \<Rightarrow> real" where
  "pow2 k = (if 0 \<le> k then 2 ^ nat k else 1 / 2 ^ nat (- k))"

text \<open>The binary exponent of a number that is not zero: \<open>2 ^ binade x \<le> \<bar>x\<bar> < 2 ^ (binade x + 1)\<close>
  (\<open>binade_bounds\<close> below).\<close>

definition binade :: "real \<Rightarrow> int" where
  "binade x =
     (let a = \<bar>x\<bar>
      in if 1 \<le> a then bit_length \<lfloor>a\<rfloor> - 1
         else - bit_length (\<lceil>1 / a\<rceil> - 1))"

text \<open>The nearest integer, a tie going to the even one.\<close>

definition round_half_even :: "real \<Rightarrow> int" where
  "round_half_even y =
     (let n = \<lfloor>y\<rfloor>; f = y - of_int n
      in if f < 1 / 2 then n
         else if 1 / 2 < f then n + 1
         else if even n then n else n + 1)"

text \<open>A double has 53 significant binary digits and a binary exponent of at least \<open>-1022\<close>:
  around \<open>x\<close>, the doubles are the multiples of \<open>quantum x\<close>. \<open>double_round x\<close> is the
  double nearest to \<open>x\<close>, ties to even, for \<open>x\<close> below \<open>2 ^ 1024\<close> in magnitude.\<close>

definition quantum :: "real \<Rightarrow> real" where
  "quantum x = pow2 (max (binade x) (- 1022) - 52)"

definition double_round :: "real \<Rightarrow> real" where
  "double_round x =
     (if x = 0 then 0 else of_int (round_half_even (x / quantum x)) * quantum x)"

text \<open>\<^verbatim>\<open>x + y\<close> and \<^verbatim>\<open>x - y\<close> on finite numbers.\<close>

definition js_plus :: "real \<Rightarrow> real \<Rightarrow> real" where
  "js_plus x y = double_round (x + y)"

definition js_minus :: "real \<Rightarrow> real \<Rightarrow> real" where
  "js_minus x y = double_round (x - y)"

datatype jsnum = Fin real | PosInf | NegInf | NaN

text \<open>The value of an operation whose exact result is \<open>r\<close>: the nearest double, or an
  infinity when that is out of the range of the doubles, that is \<open>2 ^ 1024\<close> or more in
  magnitude (\<open>js_number_Fin\<close> below).\<close>

definition js_number :: "real \<Rightarrow> jsnum" where
  "js_number r =
     (let d = double_round r
      in if d \<noteq> 0 \<and> 1024 \<le> binade d then (if 0 < d then PosInf else NegInf)
         else Fin d)"

text \<open>\<^verbatim>\<open>x / y\<close> on finite numbers: division by zero gives an infinity of the sign of
  \<^verbatim>\<open>x\<close>, and \<^verbatim>\<open>0 / 0\<close> is NaN.\<close>

definition js_div :: "real \<Rightarrow> real \<Rightarrow> jsnum" where
  "js_div x y =
     (if y \<noteq> 0 then js_number (x / y)
      else if 0 < x then PosInf
      else if x < 0 then NegInf
      else NaN)"

text \<open>\<^verbatim>\<open>c * q\<close> for a finite \<^verbatim>\<open>c\<close>.\<close>

fun js_times :: "real \<Rightarrow> jsnum \<Rightarrow> jsnum" where
  "js_times c (Fin r) = js_number (c * r)"
| "js_times c PosInf = (if 0 < c then PosInf else if c < 0 then NegInf else NaN)"
| "js_times c NegInf = (if 0 < c then NegInf else if c < 0 then PosInf else NaN)"
| "js_times c NaN = NaN"

text \<open>\<^verbatim>\<open>q >= t\<close> for a finite \<^verbatim>\<open>t\<close>: every comparison with NaN is false.\<close>

fun js_ge :: "jsnum \<Rightarrow> real \<Rightarrow> bool" where
  "js_ge (Fin r) t = (t \<le> r)"
| "js_ge PosInf t = True"
| "js_ge NegInf t = False"
| "js_ge NaN t = False"

subsection \<open>The geometric viewability test\<close>

definition isEntirelyVisible :: "real \<Rightarrow> real \<Rightarrow> real \<Rightarrow> bool" where
  "isEntirelyVisible top' bottom viewportHeight =
     (0 \<le> top' \<and> bottom \<le> viewportHeight \<and> top' < bottom)"

definition getPixelsVisible :: "real \<Rightarrow> real \<Rightarrow> real \<Rightarrow> real" where
  "getPixelsVisible top' bottom viewportHeight =
     (let visibleHeight = js_minus (min bottom viewportHeight) (max top' 0)
      in max 0 visibleHeight)"

definition isViewable :: "bool \<Rightarrow> real \<Rightarrow> real \<Rightarrow> real \<Rightarrow> real \<Rightarrow> real \<Rightarrow> bool" where
  "isViewable viewAreaMode viewablePercentThreshold top' bottom viewportHeight itemLength =
     (if isEntirelyVisible top' bottom viewportHeight then True
      else
        let pixels = getPixelsVisible top' bottom viewportHeight;
            percent = js_times 100
              (if viewAreaMode then js_div pixels viewportHeight else js_div pixels itemLength)
        in js_ge percent viewablePercentThreshold)"








subsection \<open>Configuration, frame metrics, view tokens\<close>

record ScrollInteractionFilter =
  minimumOffset :: "real option"
  minimumElapsed :: "real option"

text \<open>The type \<^verbatim>\<open>ViewabilityConfig\<close> declares the first five properties. The last
  one, \<^verbatim>\<open>minViewTime\<close>, is not declared by the type; it is the property that
  \<^verbatim>\<open>onUpdate\<close> reads (\<^verbatim>\<open>this._config.minViewTime\<close>). A configuration that
  conforms to the (exact) object type has no such property: \<open>minViewTime = None\<close>.\<close>

record ViewabilityConfig =
  minimumViewTime :: "real option"
  viewAreaCoveragePercentThreshold :: "real option"
  itemVisiblePercentThreshold :: "real option"
  waitForInteraction :: "bool option"
  scrollInteractionFilter :: "ScrollInteractionFilter option"
  minViewTime :: "real option"

text \<open>\<^verbatim>\<open>{length, offset}\<close>; the fields carry a suffix, \<open>length\<close> being the length of
  lists.\<close>

record FrameMetrics =
  length_fm :: real
  offset_fm :: real

record RenderRange =
  first_rr :: nat
  last_rr :: nat

record 'a ViewToken =
  item :: 'a
  key :: string
  index :: "nat option"
  isViewable_vt :: bool
  section_vt :: "'a option"

text \<open>A JavaScript \<^verbatim>\<open>Map\<close> iterates in insertion order, and setting a key that is
  present replaces the value in place: an association list with distinct keys.\<close>

type_synonym ('k, 'v) jsmap = "('k \<times> 'v) list"

definition map_has :: "('k, 'v) jsmap \<Rightarrow> 'k \<Rightarrow> bool" where
  "map_has m k = (k \<in> set (map fst m))"

fun map_set :: "('k, 'v) jsmap \<Rightarrow> 'k \<Rightarrow> 'v \<Rightarrow> ('k, 'v) jsmap" where
  "map_set [] k v = [(k, v)]"
| "map_set ((k', v') # m) k v = (if k' = k then (k, v) # m else (k', v') # map_set m k v)"

text \<open>\<^verbatim>\<open>new Map(entries)\<close> sets the entries in order, starting from the empty map.\<close>

definition new_Map :: "('k \<times> 'v) list \<Rightarrow> ('k, 'v) jsmap" where
  "new_Map entries = foldl (\<lambda>m (k, v). map_set m k v) [] entries"

definition map_values :: "('k, 'v) jsmap \<Rightarrow> 'v list" where
  "map_values m = map snd m"

subsection \<open>The helper's state and its constructor\<close>

datatype error =
    FilterWithoutWaitForInteraction
      \<comment> \<open>scrollInteractionFilter only works in conjunction with waitForInteraction\<close>
  | ThresholdConfiguration
      \<comment> \<open>Must set exactly one of itemVisiblePercentThreshold or viewAreaCoveragePercentThreshold\<close>
  | InvalidRenderRange
      \<comment> \<open>Invalid render range\<close>

record 'a ViewabilityHelper =
  this_config :: ViewabilityConfig
  this_hasInteracted :: bool
  this_lastUpdateTime :: real
  this_timers :: "nat set"
  this_viewableIndices :: "nat list"
  this_viewableItems :: "(string, 'a ViewToken) jsmap"

text \<open>A boolean property that may be absent is truthy iff it is present and true; a
  number that may be absent is truthy iff it is present and not zero.\<close>

definition truthy_bool :: "bool option \<Rightarrow> bool" where
  "truthy_bool b = (b = Some True)"

definition truthy_num :: "real option \<Rightarrow> bool" where
  "truthy_num x = (case x of None \<Rightarrow> False | Some r \<Rightarrow> r \<noteq> 0)"

definition default_config :: ViewabilityConfig where
  "default_config =
     \<lparr>minimumViewTime = None, viewAreaCoveragePercentThreshold = Some 0,
      itemVisiblePercentThreshold = None, waitForInteraction = None,
      scrollInteractionFilter = None, minViewTime = None\<rparr>"

text \<open>The argument is \<open>None\<close> when the constructor is called without a configuration;
  the default parameter value applies then, and only then.\<close>

definition constructor :: "ViewabilityConfig option \<Rightarrow> error + 'a ViewabilityHelper" where
  "constructor arg =
     (let config = (case arg of None \<Rightarrow> default_config | Some c \<Rightarrow> c)
      in if scrollInteractionFilter config = None \<or> truthy_bool (waitForInteraction config)
         then Inr \<lparr>this_config = config, this_hasInteracted = False, this_lastUpdateTime = 0,
                   this_timers = {}, this_viewableIndices = [], this_viewableItems = []\<rparr>
         else Inl FilterWithoutWaitForInteraction)"

subsection \<open>The range scan\<close>

text \<open>The \<^verbatim>\<open>for\<close> loop of \<^verbatim>\<open>computeViewableItems\<close>, from \<open>idx\<close> on. The loop's state is
  \<open>firstVisible\<close> (\<open>-1\<close> until an item overlaps the viewport) and the array
  \<open>viewableIndices\<close>; \<open>lookups\<close> records the arguments of the calls of
  \<open>getFrameMetrics\<close>, in order. \<^verbatim>\<open>continue\<close> is the call for \<open>Suc idx\<close>, \<^verbatim>\<open>break\<close>
  returns.\<close>

function scan ::
  "bool \<Rightarrow> real \<Rightarrow> real \<Rightarrow> real \<Rightarrow> (nat \<Rightarrow> FrameMetrics option) \<Rightarrow> nat
    \<Rightarrow> nat \<Rightarrow> int \<Rightarrow> nat list \<Rightarrow> nat list \<Rightarrow> nat list \<times> nat list" where
  "scan viewAreaMode viewablePercentThreshold scrollOffset viewportHeight getFrameMetrics last'
      idx firstVisible viewableIndices lookups =
     (if idx \<le> last' then
        (case getFrameMetrics idx of
           None \<Rightarrow>
             scan viewAreaMode viewablePercentThreshold scrollOffset viewportHeight
               getFrameMetrics last' (Suc idx) firstVisible viewableIndices (lookups @ [idx])
         | Some metrics \<Rightarrow>
             let top' = js_minus (offset_fm metrics) scrollOffset;
                 bottom = js_plus top' (length_fm metrics)
             in if top' < viewportHeight \<and> 0 < bottom then
                  scan viewAreaMode viewablePercentThreshold scrollOffset viewportHeight
                    getFrameMetrics last' (Suc idx) (int idx)
                    (if isViewable viewAreaMode viewablePercentThreshold top' bottom
                          viewportHeight (length_fm metrics)
                     then viewableIndices @ [idx] else viewableIndices)
                    (lookups @ [idx])
                else if 0 \<le> firstVisible then (viewableIndices, lookups @ [idx])
                else
                  scan viewAreaMode viewablePercentThreshold scrollOffset viewportHeight
                    getFrameMetrics last' (Suc idx) firstVisible viewableIndices
                    (lookups @ [idx]))
      else (viewableIndices, lookups))"
  by pat_completeness auto
termination
  by (relation "measure (\<lambda>(m, t, s, v, g, l, i, f, vs, ls). Suc l - i)") auto

text \<open>\<^verbatim>\<open>computeViewableItems\<close> reads the configuration of \<open>this\<close> and changes nothing.
  It returns the viewable indices, and with them the arguments of its calls of
  \<open>getFrameMetrics\<close>.\<close>

definition computeViewableItems ::
  "'a ViewabilityHelper \<Rightarrow> nat \<Rightarrow> real \<Rightarrow> real \<Rightarrow> (nat \<Rightarrow> FrameMetrics option)
    \<Rightarrow> RenderRange option \<Rightarrow> error + nat list \<times> nat list" where
  "computeViewableItems this itemCount scrollOffset viewportHeight getFrameMetrics renderRange =
     (let itemVisiblePercentThreshold' = itemVisiblePercentThreshold (this_config this);
          viewAreaCoveragePercentThreshold' = viewAreaCoveragePercentThreshold (this_config this);
          viewAreaMode = (viewAreaCoveragePercentThreshold' \<noteq> None);
          viewablePercentThreshold =
            (if viewAreaMode then viewAreaCoveragePercentThreshold'
             else itemVisiblePercentThreshold')
      in case viewablePercentThreshold of
           None \<Rightarrow> Inl ThresholdConfiguration
         | Some threshold \<Rightarrow>
             if (itemVisiblePercentThreshold' \<noteq> None) = (viewAreaCoveragePercentThreshold' \<noteq> None)
             then Inl ThresholdConfiguration
             else if itemCount = 0 then Inr ([], [])
             else
               let range = (case renderRange of
                              None \<Rightarrow> \<lparr>first_rr = 0, last_rr = itemCount - 1\<rparr>
                            | Some r \<Rightarrow> r)
               in if last_rr range < itemCount
                  then Inr (scan viewAreaMode threshold scrollOffset viewportHeight getFrameMetrics
                              (last_rr range) (first_rr range) (- 1) [] [])
                  else Inl InvalidRenderRange)"

declare scan.simps [simp del]

subsection \<open>The range scan, as the specification words it\<close>

text \<open>With \<open>top = itemOffset - scrollOffset\<close> and \<open>bottom = top + itemLength\<close> (each
  rounded), an item overlaps the viewport iff \<open>top < viewportHeight\<close> and \<open>bottom > 0\<close>. An
  index is collected iff its metrics are present, it overlaps and it passes the
  viewability test. The scan stops at an index iff its metrics are present, it does not
  overlap, and some earlier index of the range (from \<open>first\<close>) overlapped. The visited
  indices run from the start up to the first index at which the scan stops, that index
  included, or to \<open>last\<close> when there is none.\<close>

definition overlapsViewport :: "real \<Rightarrow> real \<Rightarrow> FrameMetrics \<Rightarrow> bool" where
  "overlapsViewport scrollOffset viewportHeight m =
     (js_minus (offset_fm m) scrollOffset < viewportHeight
      \<and> 0 < js_plus (js_minus (offset_fm m) scrollOffset) (length_fm m))"

definition spec_overlapping :: "real \<Rightarrow> real \<Rightarrow> (nat \<Rightarrow> FrameMetrics option) \<Rightarrow> nat \<Rightarrow> bool" where
  "spec_overlapping scrollOffset viewportHeight getFrameMetrics i =
     (case getFrameMetrics i of None \<Rightarrow> False
      | Some m \<Rightarrow> overlapsViewport scrollOffset viewportHeight m)"

definition spec_collected ::
  "bool \<Rightarrow> real \<Rightarrow> real \<Rightarrow> real \<Rightarrow> (nat \<Rightarrow> FrameMetrics option) \<Rightarrow> nat \<Rightarrow> bool" where
  "spec_collected viewAreaMode threshold scrollOffset viewportHeight getFrameMetrics i =
     (case getFrameMetrics i of None \<Rightarrow> False
      | Some m \<Rightarrow>
          overlapsViewport scrollOffset viewportHeight m \<and>
          isViewable viewAreaMode threshold (js_minus (offset_fm m) scrollOffset)
            (js_plus (js_minus (offset_fm m) scrollOffset) (length_fm m)) viewportHeight
            (length_fm m))"

definition spec_stops :: "real \<Rightarrow> real \<Rightarrow> (nat \<Rightarrow> FrameMetrics option) \<Rightarrow> nat \<Rightarrow> nat \<Rightarrow> bool" where
  "spec_stops scrollOffset viewportHeight getFrameMetrics first i =
     (case getFrameMetrics i of None \<Rightarrow> False
      | Some m \<Rightarrow>
          \<not> overlapsViewport scrollOffset viewportHeight m \<and>
          list_ex (spec_overlapping scrollOffset viewportHeight getFrameMetrics) [first..<i])"

definition spec_visited :: "real \<Rightarrow> real \<Rightarrow> (nat \<Rightarrow> FrameMetrics option) \<Rightarrow> nat \<Rightarrow> nat \<Rightarrow> nat \<Rightarrow> nat list" where
  "spec_visited scrollOffset viewportHeight getFrameMetrics first idx last' =
     (case find (spec_stops scrollOffset viewportHeight getFrameMetrics first) [idx..<Suc last'] of
        None \<Rightarrow> [idx..<Suc last']
      | Some s \<Rightarrow> [idx..<Suc s])"

text \<open>The mode and the threshold of a configuration in which exactly one of the two
  percent thresholds is set.\<close>

definition config_mode :: "ViewabilityConfig \<Rightarrow> (bool \<times> real) option" where
  "config_mode c =
     (case (viewAreaCoveragePercentThreshold c, itemVisiblePercentThreshold c) of
        (Some t, None) \<Rightarrow> Some (True, t)
      | (None, Some t) \<Rightarrow> Some (False, t)
      | _ \<Rightarrow> None)"

subsection \<open>Finalize and diff\<close>

text \<open>The argument of the callback \<^verbatim>\<open>onViewableItemsChanged\<close>.\<close>

record 'a ViewableItemsChanged =
  viewableItems :: "'a ViewToken list"
  changed :: "'a ViewToken list"

text \<open>The two \<^verbatim>\<open>for ... of\<close> loops of \<^verbatim>\<open>_onUpdateSync\<close>, each over the entries of a map in
  insertion order, pushing onto \<open>changed\<close>.\<close>

fun push_appeared ::
  "(string, 'a ViewToken) jsmap \<Rightarrow> (string \<times> 'a ViewToken) list \<Rightarrow> 'a ViewToken list
    \<Rightarrow> 'a ViewToken list" where
  "push_appeared prevItems [] changed' = changed'"
| "push_appeared prevItems ((key', viewable) # rest) changed' =
     push_appeared prevItems rest
       (if \<not> map_has prevItems key' then changed' @ [viewable] else changed')"

fun push_disappeared ::
  "(string, 'a ViewToken) jsmap \<Rightarrow> (string \<times> 'a ViewToken) list \<Rightarrow> 'a ViewToken list
    \<Rightarrow> 'a ViewToken list" where
  "push_disappeared nextItems [] changed' = changed'"
| "push_disappeared nextItems ((key', viewable) # rest) changed' =
     push_disappeared nextItems rest
       (if \<not> map_has nextItems key' then changed' @ [viewable\<lparr>isViewable_vt := False\<rparr>]
        else changed')"

text \<open>\<^verbatim>\<open>_onUpdateSync\<close> returns the helper's new state and the argument of the callback,
  when it calls it.\<close>

definition onUpdateSync ::
  "'a ViewabilityHelper \<Rightarrow> nat list \<Rightarrow> (nat \<Rightarrow> bool \<Rightarrow> 'a ViewToken)
    \<Rightarrow> 'a ViewabilityHelper \<times> 'a ViewableItemsChanged option" where
  "onUpdateSync this viewableIndicesToCheck createViewToken =
     (let viewableIndicesToCheck' =
            filter (\<lambda>ii. ii \<in> set (this_viewableIndices this)) viewableIndicesToCheck;
          prevItems = this_viewableItems this;
          nextItems = new_Map
            (map (\<lambda>ii. let viewable = createViewToken ii True in (key viewable, viewable))
               viewableIndicesToCheck');
          changed' = push_disappeared nextItems prevItems (push_appeared prevItems nextItems [])
      in if 0 < length changed'
         then (this\<lparr>this_viewableItems := nextItems\<rparr>,
               Some \<lparr>viewableItems = map_values nextItems, changed = changed'\<rparr>)
         else (this, None))"

subsection \<open>Update orchestration\<close>

text \<open>What a call of \<^verbatim>\<open>onUpdate\<close> does besides changing the helper: the arguments of its
  calls of \<open>getFrameMetrics\<close>, in order; the timer it sets (the handle that
  \<^verbatim>\<open>setTimeout\<close> returned, the delay, and the indices its callback holds); the
  argument of the callback \<^verbatim>\<open>onViewableItemsChanged\<close>, when it is called; and the
  error, when the call throws.\<close>

record 'a effects =
  lookups :: "nat list"
  timeout :: "(nat \<times> real \<times> nat list) option"
  notified :: "'a ViewableItemsChanged option"
  thrown :: "error option"

text \<open>\<^verbatim>\<open>a.length === b.length && a.every((v, ii) => v === b[ii])\<close>.\<close>

definition same_indices :: "nat list \<Rightarrow> nat list \<Rightarrow> bool" where
  "same_indices a b =
     (length a = length b \<and> list_all (\<lambda>(v, ii). v = b ! ii) (zip a [0..<length a]))"

text \<open>\<^verbatim>\<open>onUpdate\<close>. Two values come from the environment: \<open>updateTime\<close> is what
  \<^verbatim>\<open>Date.now()\<close> returns, and \<open>handle\<close> is what \<^verbatim>\<open>setTimeout\<close> returns if it is
  called. A throw of \<^verbatim>\<open>computeViewableItems\<close> leaves the assignments made before it
  in place.\<close>

definition onUpdate ::
  "'a ViewabilityHelper \<Rightarrow> real \<Rightarrow> nat \<Rightarrow> nat \<Rightarrow> real \<Rightarrow> real
    \<Rightarrow> (nat \<Rightarrow> FrameMetrics option) \<Rightarrow> (nat \<Rightarrow> bool \<Rightarrow> 'a ViewToken)
    \<Rightarrow> RenderRange option \<Rightarrow> 'a ViewabilityHelper \<times> 'a effects" where
  "onUpdate this updateTime handle itemCount scrollOffset viewportHeight getFrameMetrics
      createViewToken renderRange =
     (let probe = (if this_lastUpdateTime this = 0 then [0] else []);
          this1 = (if this_lastUpdateTime this = 0 \<and> getFrameMetrics 0 \<noteq> None
                   then this\<lparr>this_lastUpdateTime := updateTime\<rparr> else this);
          updateElapsed = (if this_lastUpdateTime this1 \<noteq> 0
                           then js_minus updateTime (this_lastUpdateTime this1) else 0);
          waiting = truthy_bool (waitForInteraction (this_config this1));
          this2 =
            (if waiting \<and> \<not> this_hasInteracted this1 \<and> scrollOffset \<noteq> 0 then
               (case scrollInteractionFilter (this_config this1) of
                  Some filter' \<Rightarrow>
                    if (case minimumOffset filter' of None \<Rightarrow> True
                        | Some m \<Rightarrow> m \<le> scrollOffset)
                       \<and> (case minimumElapsed filter' of None \<Rightarrow> True
                          | Some m \<Rightarrow> m \<le> updateElapsed)
                    then this1\<lparr>this_hasInteracted := True\<rparr> else this1
                | None \<Rightarrow> this1\<lparr>this_hasInteracted := True\<rparr>)
             else this1)
      in if waiting \<and> \<not> this_hasInteracted this2
         then (this2, \<lparr>lookups = probe, timeout = None, notified = None, thrown = None\<rparr>)
         else
           (case (if itemCount \<noteq> 0
                  then computeViewableItems this2 itemCount scrollOffset viewportHeight
                         getFrameMetrics renderRange
                  else Inr ([], [])) of
              Inl e \<Rightarrow>
                (this2, \<lparr>lookups = probe, timeout = None, notified = None, thrown = Some e\<rparr>)
            | Inr (viewableIndices, scanned) \<Rightarrow>
                if same_indices (this_viewableIndices this2) viewableIndices
                then (this2, \<lparr>lookups = probe @ scanned, timeout = None, notified = None,
                              thrown = None\<rparr>)
                else
                  let this3 = this2\<lparr>this_viewableIndices := viewableIndices,
                                     this_lastUpdateTime := updateTime\<rparr>
                  in if truthy_num (minViewTime (this_config this3))
                        \<and> updateElapsed < the (minViewTime (this_config this3))
                     then (this3\<lparr>this_timers := insert handle (this_timers this3)\<rparr>,
                           \<lparr>lookups = probe @ scanned,
                            timeout = Some (handle, the (minViewTime (this_config this3)),
                                            viewableIndices),
                            notified = None, thrown = None\<rparr>)
                     else
                       (case onUpdateSync this3 viewableIndices createViewToken of
                          (this4, n) \<Rightarrow>
                            (this4, \<lparr>lookups = probe @ scanned, timeout = None, notified = n,
                                     thrown = None\<rparr>))))"

text \<open>The callback of the timer that \<^verbatim>\<open>onUpdate\<close> sets: it removes its handle from
  \<^verbatim>\<open>this._timers\<close> and finalizes the indices it holds.\<close>

definition timerFired ::
  "'a ViewabilityHelper \<Rightarrow> nat \<Rightarrow> nat list \<Rightarrow> (nat \<Rightarrow> bool \<Rightarrow> 'a ViewToken)
    \<Rightarrow> 'a ViewabilityHelper \<times> 'a ViewableItemsChanged option" where
  "timerFired this handle viewableIndices createViewToken =
     onUpdateSync (this\<lparr>this_timers := this_timers this - {handle}\<rparr>) viewableIndices
       createViewToken"

definition recordInteraction :: "'a ViewabilityHelper \<Rightarrow> 'a ViewabilityHelper" where
  "recordInteraction this = this\<lparr>this_hasInteracted := True\<rparr>"

text \<open>\<^verbatim>\<open>dispose\<close> calls \<^verbatim>\<open>clearTimeout\<close> on every handle of \<^verbatim>\<open>this._timers\<close>; the
  helper itself is left as it is. It returns the handles cleared.\<close>

definition dispose :: "'a ViewabilityHelper \<Rightarrow> 'a ViewabilityHelper \<times> nat set" where
  "dispose this = (this, this_timers this)"

subsection \<open>Sequences of operations\<close>

datatype 'a operation =
    OnUpdate real nat nat real real "nat \<Rightarrow> FrameMetrics option" "nat \<Rightarrow> bool \<Rightarrow> 'a ViewToken"
      "RenderRange option"
  | TimerFired nat "nat list" "nat \<Rightarrow> bool \<Rightarrow> 'a ViewToken"
  | RecordInteraction
  | Dispose

fun step :: "'a ViewabilityHelper \<Rightarrow> 'a operation \<Rightarrow> 'a ViewabilityHelper" where
  "step this (OnUpdate updateTime handle itemCount scrollOffset viewportHeight getFrameMetrics
      createViewToken renderRange) =
     fst (onUpdate this updateTime handle itemCount scrollOffset viewportHeight getFrameMetrics
            createViewToken renderRange)"
| "step this (TimerFired handle viewableIndices createViewToken) =
     fst (timerFired this handle viewableIndices createViewToken)"
| "step this RecordInteraction = recordInteraction this"
| "step this Dispose = fst (dispose this)"

definition run :: "'a ViewabilityHelper \<Rightarrow> 'a operation list \<Rightarrow> 'a ViewabilityHelper" where
  "run this ops = foldl step this ops"

subsection \<open>The phases of an update\<close>

text \<open>Names for the parts of \<^verbatim>\<open>onUpdate\<close>, for stating its properties: the helper after
  the first-frame latch of \<^verbatim>\<open>_lastUpdateTime\<close>; the elapsed time; whether the
  interaction gate latches \<^verbatim>\<open>_hasInteracted\<close>; the helper after the gate; the index
  sequence that the update computes; the lookup that the first-frame test makes; and
  whether the finalize is deferred. \<open>onUpdate_phases\<close> below proves that \<open>onUpdate\<close> is
  composed of them.\<close>

definition first_frame_latch ::
  "'a ViewabilityHelper \<Rightarrow> real \<Rightarrow> (nat \<Rightarrow> FrameMetrics option) \<Rightarrow> 'a ViewabilityHelper" where
  "first_frame_latch this updateTime getFrameMetrics =
     (if this_lastUpdateTime this = 0 \<and> getFrameMetrics 0 \<noteq> None
      then this\<lparr>this_lastUpdateTime := updateTime\<rparr> else this)"

definition update_elapsed ::
  "'a ViewabilityHelper \<Rightarrow> real \<Rightarrow> (nat \<Rightarrow> FrameMetrics option) \<Rightarrow> real" where
  "update_elapsed this updateTime getFrameMetrics =
     (let this1 = first_frame_latch this updateTime getFrameMetrics
      in if this_lastUpdateTime this1 \<noteq> 0
         then js_minus updateTime (this_lastUpdateTime this1) else 0)"

definition interaction_latches :: "'a ViewabilityHelper \<Rightarrow> real \<Rightarrow> real \<Rightarrow> bool" where
  "interaction_latches this scrollOffset updateElapsed =
     (truthy_bool (waitForInteraction (this_config this)) \<and> \<not> this_hasInteracted this
      \<and> scrollOffset \<noteq> 0
      \<and> (case scrollInteractionFilter (this_config this) of
            None \<Rightarrow> True
          | Some filter' \<Rightarrow>
              (case minimumOffset filter' of None \<Rightarrow> True | Some m \<Rightarrow> m \<le> scrollOffset)
              \<and> (case minimumElapsed filter' of None \<Rightarrow> True | Some m \<Rightarrow> m \<le> updateElapsed)))"

definition after_gate ::
  "'a ViewabilityHelper \<Rightarrow> real \<Rightarrow> real \<Rightarrow> (nat \<Rightarrow> FrameMetrics option) \<Rightarrow> 'a ViewabilityHelper" where
  "after_gate this updateTime scrollOffset getFrameMetrics =
     (let this1 = first_frame_latch this updateTime getFrameMetrics
      in if interaction_latches this scrollOffset (update_elapsed this updateTime getFrameMetrics)
         then this1\<lparr>this_hasInteracted := True\<rparr> else this1)"

definition update_indices ::
  "'a ViewabilityHelper \<Rightarrow> nat \<Rightarrow> real \<Rightarrow> real \<Rightarrow> (nat \<Rightarrow> FrameMetrics option)
    \<Rightarrow> RenderRange option \<Rightarrow> error + nat list \<times> nat list" where
  "update_indices this itemCount scrollOffset viewportHeight getFrameMetrics renderRange =
     (if itemCount \<noteq> 0
      then computeViewableItems this itemCount scrollOffset viewportHeight getFrameMetrics renderRange
      else Inr ([], []))"

definition probe_lookups :: "'a ViewabilityHelper \<Rightarrow> nat list" where
  "probe_lookups this = (if this_lastUpdateTime this = 0 then [0] else [])"

definition debounced :: "'a ViewabilityHelper \<Rightarrow> real \<Rightarrow> bool" where
  "debounced this updateElapsed =
     (case minViewTime (this_config this) of
        None \<Rightarrow> False
      | Some t \<Rightarrow> t \<noteq> 0 \<and> updateElapsed < t)"

subsection \<open>Example data\<close>

text \<open>Configurations, helpers, frame metrics and a token factory, for the concrete
  instances of the theorems below. \<open>fresh c\<close> is a helper in its initial state, as the
  constructor makes it.\<close>

definition example_config :: ViewabilityConfig where
  "example_config =
     \<lparr>minimumViewTime = None, viewAreaCoveragePercentThreshold = Some 20,
      itemVisiblePercentThreshold = None, waitForInteraction = None,
      scrollInteractionFilter = None, minViewTime = None\<rparr>"

definition example_helper :: "nat ViewabilityHelper" where
  "example_helper =
     \<lparr>this_config = example_config, this_hasInteracted = False, this_lastUpdateTime = 0,
      this_timers = {}, this_viewableIndices = [], this_viewableItems = []\<rparr>"

definition example_metrics :: "nat \<Rightarrow> FrameMetrics option" where
  "example_metrics i =
     (if i = 1 then None
      else Some \<lparr>length_fm = 60, offset_fm = 45 * real i - 30\<rparr>)"

definition no_threshold_config :: ViewabilityConfig where
  "no_threshold_config =
     \<lparr>minimumViewTime = None, viewAreaCoveragePercentThreshold = None,
      itemVisiblePercentThreshold = None, waitForInteraction = None,
      scrollInteractionFilter = None, minViewTime = None\<rparr>"

definition fresh :: "ViewabilityConfig \<Rightarrow> 'a ViewabilityHelper" where
  "fresh c = \<lparr>this_config = c, this_hasInteracted = False, this_lastUpdateTime = 0,
              this_timers = {}, this_viewableIndices = [], this_viewableItems = []\<rparr>"

definition waiting_config :: ViewabilityConfig where
  "waiting_config =
     \<lparr>minimumViewTime = None, viewAreaCoveragePercentThreshold = Some 20,
      itemVisiblePercentThreshold = None, waitForInteraction = Some True,
      scrollInteractionFilter = None, minViewTime = None\<rparr>"

definition waiting_helper :: "nat ViewabilityHelper" where
  "waiting_helper =
     \<lparr>this_config = waiting_config, this_hasInteracted = False, this_lastUpdateTime = 0,
      this_timers = {}, this_viewableIndices = [], this_viewableItems = []\<rparr>"

definition example_token :: "nat \<Rightarrow> bool \<Rightarrow> nat ViewToken" where
  "example_token i v =
     \<lparr>item = i, key = (if i = 0 then ''a'' else if i = 1 then ''b'' else ''c''),
      index = Some i, isViewable_vt = v, section_vt = None\<rparr>"

definition offscreen_metrics :: "nat \<Rightarrow> FrameMetrics option" where
  "offscreen_metrics i = Some \<lparr>length_fm = 60, offset_fm = 500 + 60 * real i\<rparr>"

definition documented_config :: ViewabilityConfig where
  "documented_config =
     \<lparr>minimumViewTime = Some 500, viewAreaCoveragePercentThreshold = Some 20,
      itemVisiblePercentThreshold = None, waitForInteraction = None,
      scrollInteractionFilter = None, minViewTime = None\<rparr>"

definition one_item :: "nat \<Rightarrow> FrameMetrics option" where
  "one_item i = (if i = 0 then Some \<lparr>length_fm = 60, offset_fm = 0\<rparr> else None)"

definition undeclared_config :: ViewabilityConfig where
  "undeclared_config =
     \<lparr>minimumViewTime = None, viewAreaCoveragePercentThreshold = Some 20,
      itemVisiblePercentThreshold = None, waitForInteraction = None,
      scrollInteractionFilter = None, minViewTime = Some 500\<rparr>"

definition committed_a :: "nat ViewabilityHelper" where
  "committed_a =
     \<lparr>this_config = example_config, this_hasInteracted = False, this_lastUpdateTime = 1000,
      this_timers = {}, this_viewableIndices = [1],
      this_viewableItems = [(''a'', example_token 0 True)]\<rparr>"

definition example_update :: "real \<Rightarrow> real \<Rightarrow> nat operation" where
  "example_update updateTime scrollOffset =
     OnUpdate updateTime 7 5 scrollOffset 100 example_metrics example_token None"

section \<open>Properties\<close>

subsection \<open>Rounding to the nearest double\<close>

text \<open>\<open>double_round x\<close> is a multiple of the quantum of the binade of \<open>x\<close>, at most half a
  quantum from \<open>x\<close>.\<close>

lemma bit_length_nonpos: "n \<le> 0 \<Longrightarrow> bit_length n = 0"
  by (simp add: bit_length.simps [of n])

lemma bit_length_pos: "0 < n \<Longrightarrow> bit_length n = bit_length (n div 2) + 1"
  by (simp add: bit_length.simps [of n])

lemma bit_length_bounds:
  "0 < n \<Longrightarrow> 0 < bit_length n \<and> 2 ^ nat (bit_length n - 1) \<le> n \<and> n < 2 ^ nat (bit_length n)"
proof (induction n rule: bit_length.induct)
  case (1 n)
  define m where "m = n div 2"
  have d: "2 * m \<le> n" "n < 2 * m + 2" unfolding m_def by presburger+
  have b: "bit_length n = bit_length m + 1"
    using "1.prems" by (simp add: bit_length_pos m_def)
  show ?case
  proof (cases "m \<le> 0")
    case True
    then have "bit_length n = 1" by (simp add: b bit_length_nonpos)
    moreover have "n = 1" using True d "1.prems" by linarith
    ultimately show ?thesis by simp
  next
    case False
    then have ih: "0 < bit_length m" "2 ^ nat (bit_length m - 1) \<le> m" "m < 2 ^ nat (bit_length m)"
      using "1.IH" "1.prems" by (simp_all add: m_def)
    have "nat (bit_length m) = Suc (nat (bit_length m - 1))" using ih(1) by simp
    then have p: "(2::int) ^ nat (bit_length m) = 2 * 2 ^ nat (bit_length m - 1)" by simp
    have q: "(2::int) ^ nat (bit_length n) = 2 * 2 ^ nat (bit_length m)"
      using ih(1) by (simp add: b nat_add_distrib)
    have "2 ^ nat (bit_length m) \<le> n" using p ih(2) d(1) by linarith
    moreover have "n < 2 * 2 ^ nat (bit_length m)" using ih(3) d(2) by linarith
    ultimately show ?thesis using ih(1) by (simp add: q) (simp add: b)
  qed
qed

lemma pow2_pos: "0 < pow2 k"
  by (simp add: pow2_def)

lemma pow2_Suc: "pow2 (k + 1) = 2 * pow2 k"
proof (cases "0 \<le> k")
  case True
  then show ?thesis by (simp add: pow2_def nat_add_distrib)
next
  case False
  then have "nat (- k) = Suc (nat (- (k + 1)))" by simp
  then show ?thesis using False by (simp add: pow2_def)
qed

lemma binade_bounds:
  assumes "x \<noteq> 0"
  shows "pow2 (binade x) \<le> \<bar>x\<bar> \<and> \<bar>x\<bar> < pow2 (binade x + 1)"
proof (cases "1 \<le> \<bar>x\<bar>")
  case True
  define n where "n = \<lfloor>\<bar>x\<bar>\<rfloor>"
  have n: "0 < n" "of_int n \<le> \<bar>x\<bar>" "\<bar>x\<bar> < of_int n + 1"
  proof -
    have "1 \<le> n" using True by (simp add: n_def le_floor_iff)
    then show "0 < n" by simp
    show "of_int n \<le> \<bar>x\<bar>" unfolding n_def by linarith
    show "\<bar>x\<bar> < of_int n + 1" unfolding n_def by linarith
  qed
  have e: "binade x = bit_length n - 1"
    using True by (simp add: binade_def n_def Let_def)
  have bl: "0 < bit_length n" "2 ^ nat (bit_length n - 1) \<le> n" "n < 2 ^ nat (bit_length n)"
    using bit_length_bounds [OF n(1)] by simp_all
  have p1: "pow2 (binade x) = 2 ^ nat (bit_length n - 1)"
    using bl(1) by (simp add: e pow2_def)
  have p2: "pow2 (binade x + 1) = 2 ^ nat (bit_length n)"
    using bl(1) by (simp add: e pow2_def)
  have "(of_int (2 ^ nat (bit_length n - 1)) :: real) \<le> of_int n"
    using bl(2) by (rule of_int_le_iff [THEN iffD2])
  then have "(2::real) ^ nat (bit_length n - 1) \<le> of_int n" by simp
  then have lo: "pow2 (binade x) \<le> \<bar>x\<bar>" unfolding p1 using n(2) by linarith
  have "n + 1 \<le> 2 ^ nat (bit_length n)" using bl(3) by simp
  then have "(of_int (n + 1) :: real) \<le> of_int (2 ^ nat (bit_length n))"
    by (rule of_int_le_iff [THEN iffD2])
  then have "of_int n + 1 \<le> (2::real) ^ nat (bit_length n)" by simp
  then have "\<bar>x\<bar> < pow2 (binade x + 1)" unfolding p2 using n(3) by linarith
  with lo show ?thesis by simp
next
  case False
  define a where "a = \<bar>x\<bar>"
  have a: "0 < a" "a < 1" using assms False by (simp_all add: a_def)
  define m where "m = \<lceil>1 / a\<rceil> - 1"
  have "1 < 1 / a" using a by simp
  then have c: "2 \<le> \<lceil>1 / a\<rceil>" by linarith
  have m: "0 < m" "of_int m < 1 / a" "1 / a \<le> of_int m + 1"
  proof -
    show "0 < m" using c unfolding m_def by linarith
    show "of_int m < 1 / a" unfolding m_def by simp linarith
    show "1 / a \<le> of_int m + 1" unfolding m_def by simp
  qed
  have e: "binade x = - bit_length m"
    using False by (simp add: binade_def m_def a_def Let_def)
  have bl: "0 < bit_length m" "2 ^ nat (bit_length m - 1) \<le> m" "m < 2 ^ nat (bit_length m)"
    using bit_length_bounds [OF m(1)] by simp_all
  have p1: "pow2 (binade x) = 1 / 2 ^ nat (bit_length m)"
    using bl(1) by (simp add: e pow2_def)
  have p2: "pow2 (binade x + 1) = 1 / 2 ^ nat (bit_length m - 1)"
  proof (cases "bit_length m = 1")
    case True
    then show ?thesis by (simp add: e pow2_def)
  next
    case False
    then have "\<not> 0 \<le> - bit_length m + 1" using bl(1) by simp
    moreover have "- (- bit_length m + 1) = bit_length m - 1" by simp
    ultimately show ?thesis by (simp add: e pow2_def)
  qed
  have "m + 1 \<le> 2 ^ nat (bit_length m)" using bl(3) by simp
  then have "(of_int (m + 1) :: real) \<le> of_int (2 ^ nat (bit_length m))"
    by (rule of_int_le_iff [THEN iffD2])
  then have "of_int m + 1 \<le> (2::real) ^ nat (bit_length m)" by simp
  then have "1 / a \<le> 2 ^ nat (bit_length m)" using m(3) by linarith
  then have "1 \<le> 2 ^ nat (bit_length m) * a" using a(1) by (simp add: field_simps)
  then have lo: "1 / 2 ^ nat (bit_length m) \<le> a" by (simp add: field_simps)
  have "(of_int (2 ^ nat (bit_length m - 1)) :: real) \<le> of_int m"
    using bl(2) by (rule of_int_le_iff [THEN iffD2])
  then have "(2::real) ^ nat (bit_length m - 1) \<le> of_int m" by simp
  then have "2 ^ nat (bit_length m - 1) < 1 / a" using m(2) by linarith
  then have "2 ^ nat (bit_length m - 1) * a < 1" using a(1) by (simp add: field_simps)
  then have "a < 1 / 2 ^ nat (bit_length m - 1)" by (simp add: field_simps)
  with lo show ?thesis by (simp add: p1 p2 a_def)
qed

lemma round_half_even_error: "\<bar>of_int (round_half_even y) - y\<bar> \<le> 1 / 2"
  unfolding round_half_even_def Let_def by (auto; linarith)

lemma round_half_even_int: "round_half_even (of_int n) = n"
  by (simp add: round_half_even_def)

lemma quantum_pos: "0 < quantum x"
  by (simp add: quantum_def pow2_pos)

lemma double_round_error: "\<bar>double_round x - x\<bar> \<le> quantum x / 2"
proof (cases "x = 0")
  case True
  then show ?thesis using quantum_pos [of x] by (simp add: double_round_def)
next
  case False
  have "\<bar>of_int (round_half_even (x / quantum x)) - x / quantum x\<bar> * quantum x \<le> 1 / 2 * quantum x"
    using round_half_even_error [of "x / quantum x"] quantum_pos [of x]
    by (intro mult_right_mono) simp_all
  moreover have "\<bar>of_int (round_half_even (x / quantum x)) - x / quantum x\<bar> * quantum x
      = \<bar>of_int (round_half_even (x / quantum x)) * quantum x - x\<bar>"
  proof -
    have "\<bar>of_int (round_half_even (x / quantum x)) - x / quantum x\<bar> * quantum x
      = \<bar>(of_int (round_half_even (x / quantum x)) - x / quantum x) * quantum x\<bar>"
      using quantum_pos [of x] by (simp add: abs_mult)
    also have "(of_int (round_half_even (x / quantum x)) - x / quantum x) * quantum x
      = of_int (round_half_even (x / quantum x)) * quantum x - x"
      using quantum_pos [of x] by (simp add: field_simps)
    finally show ?thesis .
  qed
  ultimately show ?thesis using False by (simp add: double_round_def)
qed

lemma double_round_0: "double_round 0 = 0"
  by (simp add: double_round_def)

lemma js_number_0: "js_number 0 = Fin 0"
  by (simp add: js_number_def double_round_0)

lemma pow2_add: "pow2 (k + int n) = 2 ^ n * pow2 k"
proof (induction n)
  case 0
  then show ?case by simp
next
  case (Suc n)
  have "k + int (Suc n) = (k + int n) + 1" by simp
  then have "pow2 (k + int (Suc n)) = pow2 ((k + int n) + 1)" by (rule arg_cong)
  also have "\<dots> = 2 * pow2 (k + int n)" by (rule pow2_Suc)
  finally show ?case by (simp add: Suc.IH)
qed

lemma pow2_mono: "j \<le> k \<Longrightarrow> pow2 j \<le> pow2 k"
proof -
  assume "j \<le> k"
  then have "k = j + int (nat (k - j))" by simp
  then have "pow2 k = 2 ^ nat (k - j) * pow2 j" using pow2_add [of j "nat (k - j)"] by simp
  moreover have "(1::real) \<le> 2 ^ nat (k - j)" by simp
  ultimately show ?thesis using pow2_pos [of j] by (simp add: mult_le_cancel_right1)
qed

lemma js_number_Fin:
  "(js_number r = Fin (double_round r)) = (\<bar>double_round r\<bar> < pow2 1024)"
proof (cases "double_round r = 0")
  case True
  then show ?thesis using pow2_pos [of 1024] by (simp add: js_number_def)
next
  case False
  have b: "pow2 (binade (double_round r)) \<le> \<bar>double_round r\<bar>"
      "\<bar>double_round r\<bar> < pow2 (binade (double_round r) + 1)"
    using binade_bounds [OF False] by simp_all
  show ?thesis
  proof (cases "1024 \<le> binade (double_round r)")
    case True
    then have "pow2 1024 \<le> \<bar>double_round r\<bar>"
      using pow2_mono [of 1024 "binade (double_round r)"] b(1) by linarith
    then show ?thesis using True False by (simp add: js_number_def Let_def)
  next
    case n: False
    then have "pow2 (binade (double_round r) + 1) \<le> pow2 1024"
      by (intro pow2_mono) simp
    then have "\<bar>double_round r\<bar> < pow2 1024" using b(2) by linarith
    then show ?thesis using n by (simp add: js_number_def Let_def)
  qed
qed

text \<open>Some values: the doubles nearest to \<open>29 / 100\<close>, \<open>1 / 10\<close> and \<open>1 / 3\<close>, two
  ties, and the thresholds \<open>k\<close> among some integers for which \<open>100 * (k / 100)\<close>, as the
  source computes it, is at least \<open>k\<close>.\<close>

lemma double_round_examples:
  "double_round (29 / 100) = 5224175567749775 / 2 ^ 54"
  "double_round (1 / 10) = 3602879701896397 / 2 ^ 55"
  "double_round (1 / 3) = 6004799503160661 / 2 ^ 54"
  "double_round (2 ^ 53 + 1) = 2 ^ 53"
  "double_round (2 ^ 53 + 3) = 2 ^ 53 + 4"
  by code_simp+

lemma percent_examples:
  "map (\<lambda>k. js_ge (js_times 100 (js_div k 100)) k) [7, 14, 28, 29, 30, 55, 56, 57, 58, 100]
     = [True, True, True, False, True, True, True, False, False, True]"
  by code_simp

subsection \<open>The geometric test\<close>




text \<open>
  C10. In item-visible mode the percent divides the visible pixels by the item's length
  with no guard against a length of zero. For every zero-length item inside the viewport
  (\<open>top = bottom\<close>, \<open>0 < top < viewportHeight\<close>) the division is \<open>0 / 0\<close>, which is
  NaN, and the item is not viewable, whatever the threshold; the same item in view-area
  mode with threshold 0 is viewable (percent \<open>0 \<ge> 0\<close>). The entirely-visible test
  requires \<open>bottom > top\<close> and is false for such an item.
\<close>

theorem zero_length_item:
  assumes "top' = bottom" and "0 < top'" and "top' < viewportHeight"
  shows "getPixelsVisible top' bottom viewportHeight = 0
       \<and> js_div (getPixelsVisible top' bottom viewportHeight) 0 = NaN
       \<and> \<not> isViewable False threshold top' bottom viewportHeight 0
       \<and> isViewable True 0 top' bottom viewportHeight 0
       \<and> \<not> isEntirelyVisible top' bottom viewportHeight"
proof -
  have p: "getPixelsVisible top' bottom viewportHeight = 0"
    using assms by (simp add: getPixelsVisible_def js_minus_def double_round_0 Let_def)
  have e: "\<not> isEntirelyVisible top' bottom viewportHeight"
    using assms by (simp add: isEntirelyVisible_def)
  have z: "js_div 0 0 = NaN" by (simp add: js_div_def)
  have v: "js_div 0 viewportHeight = Fin 0"
    using assms by (simp add: js_div_def js_number_0)
  show ?thesis
    using p e by (simp add: isViewable_def Let_def z v js_number_0)
qed

theorem zero_length_item_witness:
  "(10::real) = 10 \<and> (0::real) < 10 \<and> (10::real) < 100
   \<and> getPixelsVisible 10 10 100 = 0
   \<and> js_div (getPixelsVisible 10 10 100) 0 = NaN
   \<and> \<not> isViewable False 0 10 10 100 0
   \<and> isViewable True 0 10 10 100 0
   \<and> \<not> isEntirelyVisible 10 10 100"
  using zero_length_item [of 10 10 100 0] by (simp add: js_div_def)

subsection \<open>The range scan\<close>

lemma find_Some_mem: "find P xs = Some x \<Longrightarrow> x \<in> set xs \<and> P x"
  by (induction xs) (auto split: if_splits)

lemma spec_visited_step:
  assumes "idx \<le> last'"
  shows "spec_visited so vh g first idx last' =
     (if spec_stops so vh g first idx then [idx]
      else idx # spec_visited so vh g first (Suc idx) last')"
proof -
  have u: "[idx..<Suc last'] = idx # [Suc idx..<Suc last']"
    using assms by (simp add: upt_conv_Cons)
  show ?thesis
  proof (cases "spec_stops so vh g first idx")
    case True
    moreover have "[idx..<Suc idx] = [idx]" by simp
    ultimately show ?thesis by (simp add: spec_visited_def u del: upt_Suc)
  next
    case False
    have "\<And>s. find (spec_stops so vh g first) [Suc idx..<Suc last'] = Some s \<Longrightarrow> Suc idx \<le> s"
      using find_Some_mem [of "spec_stops so vh g first" "[Suc idx..<Suc last']"]
      by (simp del: upt_Suc)
    then show ?thesis using False
      by (auto simp add: spec_visited_def u upt_conv_Cons simp del: upt_Suc split: option.splits)
  qed
qed

lemma spec_visited_done: "last' < idx \<Longrightarrow> spec_visited so vh g first idx last' = []"
  by (simp add: spec_visited_def)

lemma scan_spec:
  assumes "first \<le> idx"
    and "(0 \<le> firstVisible) = list_ex (spec_overlapping so vh g) [first..<idx]"
  shows "scan m t so vh g last' idx firstVisible vs ls =
     (vs @ filter (spec_collected m t so vh g) (spec_visited so vh g first idx last'),
      ls @ spec_visited so vh g first idx last')"
  using assms
proof (induction m t so vh g last' idx firstVisible vs ls rule: scan.induct)
  case (1 m t so vh g last' idx fv vs ls)
  show ?case
  proof (cases "idx \<le> last'")
    case False
    then show ?thesis
      by (simp add: scan.simps [of m t so vh g last' idx] spec_visited_done)
  next
    case le: True
    have ex_Suc: "list_ex (spec_overlapping so vh g) [first..<Suc idx]
        = (list_ex (spec_overlapping so vh g) [first..<idx] \<or> spec_overlapping so vh g idx)"
      using "1.prems"(1) by (auto simp add: list_ex_iff)
    show ?thesis
    proof (cases "g idx")
      case None
      have "\<not> spec_stops so vh g first idx" "\<not> spec_collected m t so vh g idx"
        "\<not> spec_overlapping so vh g idx"
        using None by (simp_all add: spec_stops_def spec_collected_def spec_overlapping_def)
      moreover have "scan m t so vh g last' (Suc idx) fv vs (ls @ [idx]) =
        (vs @ filter (spec_collected m t so vh g) (spec_visited so vh g first (Suc idx) last'),
         (ls @ [idx]) @ spec_visited so vh g first (Suc idx) last')"
        using "1.IH"(1) [OF le None] "1.prems" ex_Suc calculation by simp
      ultimately show ?thesis
        using le None by (simp add: scan.simps [of m t so vh g last' idx] spec_visited_step)
    next
      case (Some metrics)
      define top' where "top' = js_minus (offset_fm metrics) so"
      define bottom where "bottom = js_plus top' (length_fm metrics)"
      show ?thesis
      proof (cases "top' < vh \<and> 0 < bottom")
        case ov: True
        have o: "spec_overlapping so vh g idx" "\<not> spec_stops so vh g first idx"
          using Some ov
          by (simp_all add: spec_stops_def spec_overlapping_def overlapsViewport_def top'_def bottom_def)
        have c: "spec_collected m t so vh g idx = isViewable m t top' bottom vh (length_fm metrics)"
          using Some ov
          by (simp add: spec_collected_def overlapsViewport_def top'_def bottom_def)
        have ih: "scan m t so vh g last' (Suc idx) (int idx)
            (if isViewable m t top' bottom vh (length_fm metrics) then vs @ [idx] else vs) (ls @ [idx]) =
          ((if isViewable m t top' bottom vh (length_fm metrics) then vs @ [idx] else vs)
             @ filter (spec_collected m t so vh g) (spec_visited so vh g first (Suc idx) last'),
           (ls @ [idx]) @ spec_visited so vh g first (Suc idx) last')"
          using "1.IH"(2) [OF le Some top'_def bottom_def ov] "1.prems"(1) ex_Suc o by simp
        show ?thesis
          using le Some ov o c ih
          by (simp add: scan.simps [of m t so vh g last' idx] spec_visited_step Let_def
              top'_def [symmetric] bottom_def [symmetric])
      next
        case False
        then have nov: "(top' < vh \<and> 0 < bottom) = False" by simp
        have o: "\<not> spec_overlapping so vh g idx" "\<not> spec_collected m t so vh g idx"
          using Some \<open>\<not> (top' < vh \<and> 0 < bottom)\<close>
          by (auto simp add: spec_collected_def spec_overlapping_def overlapsViewport_def top'_def bottom_def)
        have st: "spec_stops so vh g first idx = (0 \<le> fv)"
          using Some \<open>\<not> (top' < vh \<and> 0 < bottom)\<close> "1.prems"(2)
          by (auto simp add: spec_stops_def overlapsViewport_def top'_def bottom_def)
        show ?thesis
        proof (cases "0 \<le> fv")
          case True
          then show ?thesis
            using le Some o st
            by (simp add: scan.simps [of m t so vh g last' idx] spec_visited_step Let_def
                top'_def [symmetric] bottom_def [symmetric] nov)
        next
          case False
          have ih: "scan m t so vh g last' (Suc idx) fv vs (ls @ [idx]) =
            (vs @ filter (spec_collected m t so vh g) (spec_visited so vh g first (Suc idx) last'),
             (ls @ [idx]) @ spec_visited so vh g first (Suc idx) last')"
            using "1.IH"(3) [OF le Some top'_def bottom_def \<open>\<not> (top' < vh \<and> 0 < bottom)\<close> False] "1.prems" ex_Suc o by simp
          show ?thesis
            using le Some o st False ih
            by (simp add: scan.simps [of m t so vh g last' idx] spec_visited_step Let_def
                top'_def [symmetric] bottom_def [symmetric] nov)
        qed
      qed
    qed
  qed
qed


lemma sorted_filter_upt: "sorted_wrt (<) (filter P [i..<j])"
  by (simp add: sorted_wrt_filter)

lemma spec_visited_upt:
  "\<exists>e. spec_visited so vh g first idx last' = [idx..<e] \<and> e \<le> Suc last'
       \<and> (e \<le> last' \<longrightarrow> idx < e \<and> g (e - 1) \<noteq> None)"
proof (cases "find (spec_stops so vh g first) [idx..<Suc last']")
  case None
  then show ?thesis
    by (intro exI [of _ "Suc last'"]) (simp add: spec_visited_def del: upt_Suc)
next
  case (Some s)
  have "s \<in> set [idx..<Suc last'] \<and> spec_stops so vh g first s"
    using find_Some_mem [OF Some] .
  then have "idx \<le> s" "s \<le> last'" "g s \<noteq> None"
    by (auto simp add: spec_stops_def simp del: upt_Suc split: option.splits)
  then show ?thesis using Some
    by (intro exI [of _ "Suc s"]) (simp add: spec_visited_def)
qed

text \<open>
  C5. For every call of \<open>computeViewableItems\<close> with \<open>itemCount > 0\<close> (a configuration
  with exactly one threshold, and a render range, when one is given, with
  \<open>last < itemCount\<close>): the scan visits the indices ascending from \<open>first\<close> (default 0) to
  \<open>last\<close> (default \<open>itemCount - 1\<close>), an index with absent metrics does not end the scan,
  the scan stops at the first measured index that does not overlap after an overlapping one
  has been seen, the result holds exactly the visited indices that overlap the viewport
  and pass the viewability test, and the result is ascending.
\<close>

theorem computeViewableItems_scan:
  assumes "config_mode (this_config this) = Some (viewAreaMode, threshold)"
    and "0 < itemCount"
    and "case renderRange of
           None \<Rightarrow> first = 0 \<and> last' = itemCount - 1
         | Some r \<Rightarrow> first = first_rr r \<and> last' = last_rr r \<and> last_rr r < itemCount"
    and "visited = spec_visited scrollOffset viewportHeight getFrameMetrics first first last'"
  shows "computeViewableItems this itemCount scrollOffset viewportHeight getFrameMetrics renderRange
        = Inr (filter (spec_collected viewAreaMode threshold scrollOffset viewportHeight
                         getFrameMetrics) visited, visited)
      \<and> (\<exists>e. visited = [first..<e] \<and> e \<le> Suc last')
      \<and> (\<forall>i \<in> set visited. getFrameMetrics i = None \<and> i < last' \<longrightarrow> Suc i \<in> set visited)
      \<and> sorted_wrt (<) (filter (spec_collected viewAreaMode threshold scrollOffset viewportHeight
                         getFrameMetrics) visited)"
proof -
  let ?visited = "spec_visited scrollOffset viewportHeight getFrameMetrics first first last'"
  let ?c = "spec_collected viewAreaMode threshold scrollOffset viewportHeight getFrameMetrics"
  have sc: "scan viewAreaMode threshold scrollOffset viewportHeight getFrameMetrics last' first
              (- 1) [] [] = (filter ?c ?visited, ?visited)"
    using scan_spec [of first first "- 1" scrollOffset viewportHeight getFrameMetrics
        viewAreaMode threshold last' "[]" "[]"]
    by simp
  have thr: "viewAreaCoveragePercentThreshold (this_config this) = Some threshold
        \<and> itemVisiblePercentThreshold (this_config this) = None \<and> viewAreaMode
      \<or> viewAreaCoveragePercentThreshold (this_config this) = None
        \<and> itemVisiblePercentThreshold (this_config this) = Some threshold \<and> \<not> viewAreaMode"
    using assms(1) by (auto simp add: config_mode_def split: option.splits)
  have rng: "last' < itemCount"
    and rr: "(case renderRange of None \<Rightarrow> \<lparr>first_rr = 0, last_rr = itemCount - 1\<rparr> | Some r \<Rightarrow> r)
             = \<lparr>first_rr = first, last_rr = last'\<rparr>"
    using assms(2,3) by (auto split: option.splits)
  have res: "computeViewableItems this itemCount scrollOffset viewportHeight getFrameMetrics
      renderRange = Inr (filter ?c ?visited, ?visited)"
    using thr assms(2) rng sc by (auto simp add: computeViewableItems_def Let_def rr)
  obtain e where e: "?visited = [first..<e]" "e \<le> Suc last'"
      "e \<le> last' \<longrightarrow> first < e \<and> getFrameMetrics (e - 1) \<noteq> None"
    using spec_visited_upt [of scrollOffset viewportHeight getFrameMetrics first first last']
    by blast
  have skip: "\<forall>i \<in> set ?visited. getFrameMetrics i = None \<and> i < last' \<longrightarrow> Suc i \<in> set ?visited"
  proof (intro ballI impI)
    fix i assume i: "i \<in> set ?visited" "getFrameMetrics i = None \<and> i < last'"
    then have "first \<le> i" "i < e" using e(1) by auto
    moreover have "Suc i \<noteq> e" using e(3) i by (cases "e \<le> last'") auto
    ultimately show "Suc i \<in> set ?visited" using e(1) by auto
  qed
  have "sorted_wrt (<) (filter ?c ?visited)"
    using e(1) by (simp add: sorted_filter_upt)
  with res skip e(1,2) show ?thesis
    unfolding assms(4) by blast
qed

theorem computeViewableItems_scan_witness:
  "config_mode (this_config example_helper) = Some (True, 20) \<and> (0::nat) < 5
   \<and> spec_visited 0 100 example_metrics 0 0 4 = [0, 1, 2, 3]
   \<and> computeViewableItems example_helper 5 0 100 example_metrics None = Inr ([0, 2], [0, 1, 2, 3])"
proof -
  have c: "config_mode (this_config example_helper) = Some (True, 20)"
    by (simp add: config_mode_def example_helper_def example_config_def)
  have v: "[0, 1, 2, 3] = spec_visited 0 100 example_metrics 0 0 4"
    by code_simp
  have g: "filter (spec_collected True 20 0 100 example_metrics) [0, 1, 2, 3] = [0, 2]"
    by code_simp
  have "computeViewableItems example_helper 5 0 100 example_metrics None
      = Inr (filter (spec_collected True 20 0 100 example_metrics) [0, 1, 2, 3], [0, 1, 2, 3])"
    using computeViewableItems_scan [where this = example_helper and viewAreaMode = True
        and threshold = 20 and itemCount = 5 and renderRange = None and first = 0 and last' = 4
        and scrollOffset = 0 and viewportHeight = 100 and getFrameMetrics = example_metrics
        and visited = "[0, 1, 2, 3]", OF c _ _ v]
    by simp
  then show ?thesis
    unfolding g using c v by simp
qed

subsection \<open>Update orchestration: the phases\<close>

lemma onUpdateSync_shape:
  "\<exists>items n. onUpdateSync this v c = (this\<lparr>this_viewableItems := items\<rparr>, n)"
proof -
  obtain ch nx where
    "onUpdateSync this v c = (if 0 < length ch then (this\<lparr>this_viewableItems := nx\<rparr>,
               Some \<lparr>viewableItems = map_values nx, changed = ch\<rparr>)
         else (this, None))"
    unfolding onUpdateSync_def Let_def by blast
  then have "onUpdateSync this v c = (this\<lparr>this_viewableItems := nx\<rparr>,
               Some \<lparr>viewableItems = map_values nx, changed = ch\<rparr>)
      \<or> onUpdateSync this v c = (this\<lparr>this_viewableItems := this_viewableItems this\<rparr>, None)"
    by (cases "0 < length ch") simp_all
  then show ?thesis by blast
qed

lemma onUpdateSync_keeps:
  "this_hasInteracted (fst (onUpdateSync this v c)) = this_hasInteracted this"
  "this_config (fst (onUpdateSync this v c)) = this_config this"
  "this_lastUpdateTime (fst (onUpdateSync this v c)) = this_lastUpdateTime this"
  "this_timers (fst (onUpdateSync this v c)) = this_timers this"
  "this_viewableIndices (fst (onUpdateSync this v c)) = this_viewableIndices this"
  using onUpdateSync_shape [of this v c] by auto

lemma same_indices_eq: "same_indices a b = (a = b)"
proof -
  have "list_all (\<lambda>(v, ii). v = b ! ii) (zip a [0..<length a]) = (\<forall>i<length a. a ! i = b ! i)"
    by (auto simp add: list_all_length)
  then have "same_indices a b = (length a = length b \<and> (\<forall>i<length a. a ! i = b ! i))"
    by (simp add: same_indices_def)
  also have "\<dots> = (a = b)"
    by (rule list_eq_iff_nth_eq [symmetric])
  finally show ?thesis .
qed

lemma computeViewableItems_config:
  "this_config a = this_config b \<Longrightarrow>
     computeViewableItems a n so vh g rr = computeViewableItems b n so vh g rr"
  by (simp add: computeViewableItems_def)

lemma after_gate_keeps:
  "this_config (after_gate this t so g) = this_config this"
  "this_timers (after_gate this t so g) = this_timers this"
  "this_viewableIndices (after_gate this t so g) = this_viewableIndices this"
  "this_viewableItems (after_gate this t so g) = this_viewableItems this"
  "this_lastUpdateTime (after_gate this t so g) =
     (if this_lastUpdateTime this = 0 \<and> g 0 \<noteq> None then t else this_lastUpdateTime this)"
  "this_hasInteracted (after_gate this t so g) =
     (this_hasInteracted this \<or> interaction_latches this so (update_elapsed this t g))"
  by (auto simp add: after_gate_def first_frame_latch_def Let_def)

lemma onUpdate_phases:
  "onUpdate this updateTime handle itemCount scrollOffset viewportHeight getFrameMetrics
      createViewToken renderRange =
     (let this2 = after_gate this updateTime scrollOffset getFrameMetrics;
          updateElapsed = update_elapsed this updateTime getFrameMetrics
      in if truthy_bool (waitForInteraction (this_config this)) \<and> \<not> this_hasInteracted this2
         then (this2, \<lparr>lookups = probe_lookups this, timeout = None, notified = None,
                       thrown = None\<rparr>)
         else
           (case update_indices this itemCount scrollOffset viewportHeight getFrameMetrics
                   renderRange of
              Inl e \<Rightarrow>
                (this2, \<lparr>lookups = probe_lookups this, timeout = None, notified = None,
                         thrown = Some e\<rparr>)
            | Inr (viewableIndices, scanned) \<Rightarrow>
                if this_viewableIndices this = viewableIndices
                then (this2, \<lparr>lookups = probe_lookups this @ scanned, timeout = None,
                              notified = None, thrown = None\<rparr>)
                else
                  let this3 = this2\<lparr>this_viewableIndices := viewableIndices,
                                     this_lastUpdateTime := updateTime\<rparr>
                  in if debounced this updateElapsed
                     then (this3\<lparr>this_timers := insert handle (this_timers this)\<rparr>,
                           \<lparr>lookups = probe_lookups this @ scanned,
                            timeout = Some (handle, the (minViewTime (this_config this)),
                                            viewableIndices),
                            notified = None, thrown = None\<rparr>)
                     else
                       (fst (onUpdateSync this3 viewableIndices createViewToken),
                        \<lparr>lookups = probe_lookups this @ scanned, timeout = None,
                         notified = snd (onUpdateSync this3 viewableIndices createViewToken),
                         thrown = None\<rparr>)))"
proof -
  let ?this1 = "first_frame_latch this updateTime getFrameMetrics"
  let ?el = "update_elapsed this updateTime getFrameMetrics"
  let ?this2 = "after_gate this updateTime scrollOffset getFrameMetrics"
  have c1: "this_config ?this1 = this_config this" "this_hasInteracted ?this1 = this_hasInteracted this"
    by (simp_all add: first_frame_latch_def)
  have g: "(if truthy_bool (waitForInteraction (this_config ?this1)) \<and> \<not> this_hasInteracted ?this1
               \<and> scrollOffset \<noteq> 0 then
               (case scrollInteractionFilter (this_config ?this1) of
                  Some filter' \<Rightarrow>
                    if (case minimumOffset filter' of None \<Rightarrow> True
                        | Some m \<Rightarrow> m \<le> scrollOffset)
                       \<and> (case minimumElapsed filter' of None \<Rightarrow> True
                          | Some m \<Rightarrow> m \<le> ?el)
                    then ?this1\<lparr>this_hasInteracted := True\<rparr> else ?this1
                | None \<Rightarrow> ?this1\<lparr>this_hasInteracted := True\<rparr>)
             else ?this1) = ?this2"
    by (simp add: after_gate_def interaction_latches_def c1 Let_def split: option.splits)
  have ui: "(if itemCount \<noteq> 0
             then computeViewableItems ?this2 itemCount scrollOffset viewportHeight
                         getFrameMetrics renderRange
             else Inr ([], []))
      = update_indices this itemCount scrollOffset viewportHeight getFrameMetrics renderRange"
    using computeViewableItems_config [of ?this2 this]
    by (simp add: update_indices_def after_gate_keeps)
  have d: "\<And>vs. (truthy_num (minViewTime (this_config (?this2\<lparr>this_viewableIndices := vs,
                                     this_lastUpdateTime := updateTime\<rparr>)))
         \<and> ?el < the (minViewTime (this_config (?this2\<lparr>this_viewableIndices := vs,
                                     this_lastUpdateTime := updateTime\<rparr>))))
      = debounced this ?el"
    by (simp add: debounced_def truthy_num_def after_gate_keeps split: option.splits)
  have "onUpdate this updateTime handle itemCount scrollOffset viewportHeight getFrameMetrics
      createViewToken renderRange =
     (if truthy_bool (waitForInteraction (this_config ?this1)) \<and> \<not> this_hasInteracted ?this2
         then (?this2, \<lparr>lookups = probe_lookups this, timeout = None, notified = None, thrown = None\<rparr>)
         else
           (case update_indices this itemCount scrollOffset viewportHeight getFrameMetrics
                   renderRange of
              Inl e \<Rightarrow>
                (?this2, \<lparr>lookups = probe_lookups this, timeout = None, notified = None, thrown = Some e\<rparr>)
            | Inr (viewableIndices, scanned) \<Rightarrow>
                if same_indices (this_viewableIndices ?this2) viewableIndices
                then (?this2, \<lparr>lookups = probe_lookups this @ scanned, timeout = None, notified = None,
                              thrown = None\<rparr>)
                else
                  if debounced this ?el
                     then (?this2\<lparr>this_viewableIndices := viewableIndices,
                                     this_lastUpdateTime := updateTime\<rparr>
                             \<lparr>this_timers := insert handle (this_timers (?this2\<lparr>this_viewableIndices := viewableIndices,
                                     this_lastUpdateTime := updateTime\<rparr>))\<rparr>,
                           \<lparr>lookups = probe_lookups this @ scanned,
                            timeout = Some (handle, the (minViewTime (this_config (?this2\<lparr>this_viewableIndices := viewableIndices,
                                     this_lastUpdateTime := updateTime\<rparr>))),
                                            viewableIndices),
                            notified = None, thrown = None\<rparr>)
                     else
                       (case onUpdateSync (?this2\<lparr>this_viewableIndices := viewableIndices,
                                     this_lastUpdateTime := updateTime\<rparr>) viewableIndices createViewToken of
                          (this4, n) \<Rightarrow>
                            (this4, \<lparr>lookups = probe_lookups this @ scanned, timeout = None, notified = n,
                                     thrown = None\<rparr>))))"
    unfolding onUpdate_def Let_def g ui d
      first_frame_latch_def [symmetric] update_elapsed_def [unfolded Let_def, symmetric]
      probe_lookups_def [symmetric]
    by (rule refl)
  then show ?thesis
    by (simp add: Let_def c1 same_indices_eq after_gate_keeps split_beta
        cong: if_cong sum.case_cong)
qed

lemma onUpdate_keeps:
  "this_hasInteracted (fst (onUpdate this t h n so vh g c rr))
     = this_hasInteracted (after_gate this t so g)"
  "this_config (fst (onUpdate this t h n so vh g c rr)) = this_config this"
  by (simp_all add: onUpdate_phases Let_def onUpdateSync_keeps after_gate_keeps
      split: sum.splits prod.splits)

subsection \<open>Validation\<close>

text \<open>
  C2 as stated, refuted: every configuration in which both or neither threshold is set fails with
  a configuration error at construction. The constructor accepts a configuration with
  neither threshold.
\<close>

theorem constructor_no_threshold_counterexample:
  "viewAreaCoveragePercentThreshold no_threshold_config = None
   \<and> itemVisiblePercentThreshold no_threshold_config = None
   \<and> constructor (Some no_threshold_config) = (Inr (fresh no_threshold_config) :: error + nat ViewabilityHelper)"
  by (simp add: constructor_def no_threshold_config_def fresh_def truthy_bool_def)

text \<open>
  C2 as amended. The constructor does not look at the thresholds: it accepts exactly the
  configurations whose \<open>scrollInteractionFilter\<close> is absent or whose \<open>waitForInteraction\<close>
  is true, and it takes \<open>{viewAreaCoveragePercentThreshold: 0}\<close> only when it is called
  without a configuration. The thresholds are checked by \<open>computeViewableItems\<close>, at each
  call and before anything else: with both or neither threshold set, every call fails with
  the configuration error; with exactly one set, no call fails with it.
\<close>

theorem threshold_validation:
  "constructor (Some c) =
     (if scrollInteractionFilter c = None \<or> waitForInteraction c = Some True
      then Inr (fresh c :: 'a ViewabilityHelper) else Inl FilterWithoutWaitForInteraction)
   \<and> constructor None = Inr (fresh default_config :: 'a ViewabilityHelper)
   \<and> ((viewAreaCoveragePercentThreshold (this_config (this :: 'a ViewabilityHelper)) = None)
        = (itemVisiblePercentThreshold (this_config this) = None)
      \<longrightarrow> computeViewableItems this itemCount scrollOffset viewportHeight getFrameMetrics
            renderRange = Inl ThresholdConfiguration)
   \<and> ((viewAreaCoveragePercentThreshold (this_config this) = None)
        \<noteq> (itemVisiblePercentThreshold (this_config this) = None)
      \<longrightarrow> computeViewableItems this itemCount scrollOffset viewportHeight getFrameMetrics
            renderRange \<noteq> Inl ThresholdConfiguration)"
  by (auto simp add: constructor_def fresh_def truthy_bool_def default_config_def
      computeViewableItems_def Let_def split: option.splits)

theorem threshold_validation_witness:
  "constructor (Some no_threshold_config) = (Inr (fresh no_threshold_config) :: error + nat ViewabilityHelper)
   \<and> computeViewableItems (fresh no_threshold_config :: nat ViewabilityHelper) 5 0 100 example_metrics None
       = Inl ThresholdConfiguration
   \<and> computeViewableItems example_helper 5 0 100 example_metrics None \<noteq> Inl ThresholdConfiguration"
  using threshold_validation [of no_threshold_config "fresh no_threshold_config :: nat ViewabilityHelper"
      5 0 100 example_metrics None]
    threshold_validation [of no_threshold_config example_helper 5 0 100 example_metrics None]
  by (simp add: no_threshold_config_def fresh_def example_helper_def example_config_def)

text \<open>
  C8 as stated, refuted: every call of \<open>computeViewableItems\<close> with a render range whose
  \<open>last \<ge> itemCount\<close> raises the invalid-render-range error, also for \<open>itemCount = 0\<close>.
  With \<open>itemCount = 0\<close> the call returns the empty sequence.
\<close>

theorem render_range_counterexample:
  "config_mode (this_config example_helper) = Some (True, 20)
   \<and> \<not> last_rr \<lparr>first_rr = 0, last_rr = 3\<rparr> < 0
   \<and> computeViewableItems example_helper 0 0 100 example_metrics (Some \<lparr>first_rr = 0, last_rr = 3\<rparr>)
       = Inr ([], [])"
  by (simp add: computeViewableItems_def example_helper_def example_config_def config_mode_def)

text \<open>
  C8 as amended. On a helper whose configuration sets exactly one threshold, a call of
  \<open>computeViewableItems\<close> with a render range whose \<open>last \<ge> itemCount\<close> raises the
  invalid-render-range error when \<open>itemCount > 0\<close>, before any metrics lookup; when
  \<open>itemCount = 0\<close> it returns the empty sequence, without raising and without a metrics
  lookup.
\<close>

theorem render_range_checked:
  assumes "config_mode (this_config this) = Some (viewAreaMode, threshold)"
    and "itemCount \<le> last_rr r"
  shows "computeViewableItems this itemCount scrollOffset viewportHeight getFrameMetrics (Some r)
      = (if itemCount = 0 then Inr ([], []) else Inl InvalidRenderRange)"
  using assms
  by (auto simp add: computeViewableItems_def Let_def config_mode_def split: option.splits)

theorem render_range_checked_witness:
  "config_mode (this_config example_helper) = Some (True, 20)
   \<and> (5::nat) \<le> last_rr \<lparr>first_rr = 0, last_rr = 5\<rparr>
   \<and> computeViewableItems example_helper 5 0 100 example_metrics
        (Some \<lparr>first_rr = 0, last_rr = 5\<rparr>) = Inl InvalidRenderRange
   \<and> computeViewableItems example_helper 0 0 100 example_metrics
        (Some \<lparr>first_rr = 0, last_rr = 5\<rparr>) = Inr ([], [])"
proof -
  have c: "config_mode (this_config example_helper) = Some (True, 20)"
    by (simp add: config_mode_def example_helper_def example_config_def)
  show ?thesis
    using render_range_checked [OF c, of 5 "\<lparr>first_rr = 0, last_rr = 5\<rparr>" 0 100 example_metrics]
      render_range_checked [OF c, of 0 "\<lparr>first_rr = 0, last_rr = 5\<rparr>" 0 100 example_metrics] c
    by simp
qed

subsection \<open>Interaction gating\<close>

text \<open>
  C3 as stated, refuted: an update that the interaction gate suppresses changes no state of the
  tracker, \<open>lastUpdateTime\<close> included. The first-frame latch comes before the gate: a
  suppressed update at time 1000 on a helper whose \<open>lastUpdateTime\<close> is 0, with the first
  item measured, sets \<open>lastUpdateTime\<close> to 1000.
\<close>

theorem suppressed_update_counterexample:
  "truthy_bool (waitForInteraction (this_config waiting_helper))
   \<and> \<not> this_hasInteracted (fst (onUpdate waiting_helper 1000 7 5 0 100 example_metrics example_token None))
   \<and> this_lastUpdateTime waiting_helper = 0
   \<and> this_lastUpdateTime (fst (onUpdate waiting_helper 1000 7 5 0 100 example_metrics example_token None)) = 1000"
  by (simp add: onUpdate_phases after_gate_def interaction_latches_def first_frame_latch_def
      waiting_helper_def waiting_config_def truthy_bool_def example_metrics_def Let_def)

text \<open>
  C3 as amended. For every \<open>onUpdate\<close> call with \<open>waitForInteraction\<close> configured after which
  interaction is not latched: no range scan runs (the only metrics lookup is the one of
  the first-frame test, for index 0, made when \<open>lastUpdateTime\<close> was 0), no timer is
  set, the callback is not called, nothing is thrown, and the tracker's state is
  unchanged but for \<open>lastUpdateTime\<close>, which is set to the update's timestamp when it was
  0 and the first item has metrics.
\<close>

theorem suppressed_update:
  assumes "truthy_bool (waitForInteraction (this_config this))"
    and "onUpdate this updateTime handle itemCount scrollOffset viewportHeight getFrameMetrics
           createViewToken renderRange = (this', eff)"
    and "\<not> this_hasInteracted this'"
  shows "eff = \<lparr>lookups = (if this_lastUpdateTime this = 0 then [0] else []),
                timeout = None, notified = None, thrown = None\<rparr>
       \<and> this' = this\<lparr>this_lastUpdateTime :=
             (if this_lastUpdateTime this = 0 \<and> getFrameMetrics 0 \<noteq> None
              then updateTime else this_lastUpdateTime this)\<rparr>"
proof -
  let ?this2 = "after_gate this updateTime scrollOffset getFrameMetrics"
  have "this_hasInteracted this' = this_hasInteracted ?this2"
    using onUpdate_keeps(1) [of this updateTime handle itemCount scrollOffset viewportHeight
        getFrameMetrics createViewToken renderRange] assms(2) by simp
  then have n: "\<not> this_hasInteracted ?this2" using assms(3) by simp
  then have "(this', eff) = (?this2, \<lparr>lookups = probe_lookups this, timeout = None,
      notified = None, thrown = None\<rparr>)"
    using assms(1) unfolding assms(2) [symmetric] by (simp add: onUpdate_phases Let_def)
  moreover have "?this2 = this\<lparr>this_lastUpdateTime :=
             (if this_lastUpdateTime this = 0 \<and> getFrameMetrics 0 \<noteq> None
              then updateTime else this_lastUpdateTime this)\<rparr>"
    using n by (auto simp add: after_gate_def first_frame_latch_def Let_def split: if_splits)
  ultimately show ?thesis by (simp add: probe_lookups_def)
qed

theorem suppressed_update_witness:
  "truthy_bool (waitForInteraction (this_config waiting_helper))
   \<and> onUpdate waiting_helper 1000 7 5 0 100 example_metrics example_token None
       = (waiting_helper\<lparr>this_lastUpdateTime := 1000\<rparr>,
          \<lparr>lookups = [0], timeout = None, notified = None, thrown = None\<rparr>)"
proof -
  obtain this' eff where r:
    "onUpdate waiting_helper 1000 7 5 0 100 example_metrics example_token None = (this', eff)"
    by (cases "onUpdate waiting_helper 1000 7 5 0 100 example_metrics example_token None")
  have w: "truthy_bool (waitForInteraction (this_config waiting_helper))"
    by (simp add: waiting_helper_def waiting_config_def truthy_bool_def)
  have "this_hasInteracted this' = this_hasInteracted (after_gate waiting_helper 1000 0 example_metrics)"
    using onUpdate_keeps(1) [of waiting_helper 1000 7 5 0 100 example_metrics example_token None] r
    by simp
  then have n: "\<not> this_hasInteracted this'"
    by (simp add: after_gate_keeps interaction_latches_def waiting_helper_def)
  show ?thesis
    using suppressed_update [OF w r n] w r
    by (simp add: waiting_helper_def example_metrics_def)
qed

subsection \<open>The no-op short-circuit\<close>

lemma onUpdate_viewableIndices:
  assumes "update_indices this n so vh g rr = Inr (vs, sc)"
    and "\<not> (truthy_bool (waitForInteraction (this_config this))
            \<and> \<not> this_hasInteracted (after_gate this t so g))"
  shows "this_viewableIndices (fst (onUpdate this t h n so vh g c rr)) = vs"
  using assms
  by (simp add: onUpdate_phases Let_def onUpdateSync_keeps after_gate_keeps)

lemma onUpdate_suppressed_quiet:
  assumes "truthy_bool (waitForInteraction (this_config this))
            \<and> \<not> this_hasInteracted (after_gate this t so g)"
  shows "notified (snd (onUpdate this t h n so vh g c rr)) = None"
  using assms by (simp add: onUpdate_phases Let_def)

lemma onUpdate_discarded:
  assumes "update_indices this n so vh g rr = Inr (this_viewableIndices this, sc)"
  shows "onUpdate this t h n so vh g c rr =
     (after_gate this t so g,
      \<lparr>lookups = (if truthy_bool (waitForInteraction (this_config this))
                      \<and> \<not> this_hasInteracted (after_gate this t so g)
                   then probe_lookups this else probe_lookups this @ sc),
       timeout = None, notified = None, thrown = None\<rparr>)"
  using assms by (simp add: onUpdate_phases Let_def)

lemma update_indices_config:
  "this_config a = this_config b \<Longrightarrow>
     update_indices a n so vh g rr = update_indices b n so vh g rr"
  using computeViewableItems_config [of a b] by (simp add: update_indices_def)

text \<open>
  C6 as stated, refuted: when the newly computed index sequence is identical to
  \<open>currentViewableIndices\<close>, \<open>lastUpdateTime\<close> is not updated. On a new helper whose
  first item is measured and lies below the viewport, the update at time 1000 computes
  the empty sequence, which is the current one, and \<open>lastUpdateTime\<close> goes from 0 to 1000
  by the first-frame latch.
\<close>

theorem discarded_update_counterexample:
  "update_indices example_helper 1 0 100 offscreen_metrics None
     = Inr (this_viewableIndices example_helper, [0])
   \<and> this_lastUpdateTime example_helper = 0
   \<and> this_lastUpdateTime
        (fst (onUpdate example_helper 1000 7 1 0 100 offscreen_metrics example_token None)) = 1000"
proof -
  have u: "update_indices example_helper 1 0 100 offscreen_metrics None
     = Inr (this_viewableIndices example_helper, [0])"
    by code_simp
  show ?thesis
    using u onUpdate_discarded [OF u, of 1000 7 example_token]
    by (simp add: after_gate_keeps example_helper_def offscreen_metrics_def)
qed

text \<open>
  C6 as amended. For every \<open>onUpdate\<close> call whose newly computed viewable index sequence is
  identical to \<open>currentViewableIndices\<close>, the update is discarded: \<open>lastUpdateTime\<close> is
  not refreshed (it changes only by the first-frame latch: when it was 0 and the first
  item has metrics, it becomes the update's timestamp), no debounce timer is scheduled,
  \<open>onViewableItemsChanged\<close> is not invoked, nothing is thrown, and the timers, the
  current indices and the committed items are unchanged. In particular, of two consecutive
  updates that compute the same index sequence, at most one invokes the callback.
\<close>

theorem discarded_update:
  "(update_indices this itemCount scrollOffset viewportHeight getFrameMetrics renderRange
        = Inr (this_viewableIndices this, scanned)
      \<longrightarrow> timeout (snd (onUpdate this updateTime handle itemCount scrollOffset viewportHeight
                getFrameMetrics createViewToken renderRange)) = None
        \<and> notified (snd (onUpdate this updateTime handle itemCount scrollOffset viewportHeight
                getFrameMetrics createViewToken renderRange)) = None
        \<and> thrown (snd (onUpdate this updateTime handle itemCount scrollOffset viewportHeight
                getFrameMetrics createViewToken renderRange)) = None
        \<and> fst (onUpdate this updateTime handle itemCount scrollOffset viewportHeight
                getFrameMetrics createViewToken renderRange)
            = this\<lparr>this_lastUpdateTime :=
                  (if this_lastUpdateTime this = 0 \<and> getFrameMetrics 0 \<noteq> None
                   then updateTime else this_lastUpdateTime this),
                 this_hasInteracted :=
                  (this_hasInteracted this
                   \<or> interaction_latches this scrollOffset
                        (update_elapsed this updateTime getFrameMetrics))\<rparr>)
   \<and> (update_indices this itemCount scrollOffset viewportHeight getFrameMetrics renderRange
        = Inr (indices, scanned)
      \<and> update_indices
          (fst (onUpdate this updateTime handle itemCount scrollOffset viewportHeight
                  getFrameMetrics createViewToken renderRange))
          itemCount' scrollOffset' viewportHeight' getFrameMetrics' renderRange'
        = Inr (indices, scanned')
      \<longrightarrow> notified (snd (onUpdate this updateTime handle itemCount scrollOffset viewportHeight
                getFrameMetrics createViewToken renderRange)) = None
        \<or> notified (snd (onUpdate
              (fst (onUpdate this updateTime handle itemCount scrollOffset viewportHeight
                      getFrameMetrics createViewToken renderRange))
              updateTime' handle' itemCount' scrollOffset' viewportHeight' getFrameMetrics'
              createViewToken' renderRange')) = None)"
proof (intro conjI impI)
  let ?r = "onUpdate this updateTime handle itemCount scrollOffset viewportHeight
                getFrameMetrics createViewToken renderRange"
  assume u: "update_indices this itemCount scrollOffset viewportHeight getFrameMetrics renderRange
        = Inr (this_viewableIndices this, scanned)"
  show "timeout (snd ?r) = None" "notified (snd ?r) = None" "thrown (snd ?r) = None"
    by (simp_all add: onUpdate_discarded [OF u])
  have "fst ?r = after_gate this updateTime scrollOffset getFrameMetrics"
    by (simp add: onUpdate_discarded [OF u])
  also have "\<dots> = this\<lparr>this_lastUpdateTime :=
                  (if this_lastUpdateTime this = 0 \<and> getFrameMetrics 0 \<noteq> None
                   then updateTime else this_lastUpdateTime this),
                 this_hasInteracted :=
                  (this_hasInteracted this
                   \<or> interaction_latches this scrollOffset
                        (update_elapsed this updateTime getFrameMetrics))\<rparr>"
    by (auto simp add: after_gate_def first_frame_latch_def Let_def)
  finally show "fst ?r = this\<lparr>this_lastUpdateTime :=
                  (if this_lastUpdateTime this = 0 \<and> getFrameMetrics 0 \<noteq> None
                   then updateTime else this_lastUpdateTime this),
                 this_hasInteracted :=
                  (this_hasInteracted this
                   \<or> interaction_latches this scrollOffset
                        (update_elapsed this updateTime getFrameMetrics))\<rparr>" .
next
  let ?r = "onUpdate this updateTime handle itemCount scrollOffset viewportHeight
                getFrameMetrics createViewToken renderRange"
  assume a: "update_indices this itemCount scrollOffset viewportHeight getFrameMetrics renderRange
        = Inr (indices, scanned)
      \<and> update_indices (fst ?r) itemCount' scrollOffset' viewportHeight' getFrameMetrics'
          renderRange' = Inr (indices, scanned')"
  show "notified (snd ?r) = None
        \<or> notified (snd (onUpdate (fst ?r) updateTime' handle' itemCount' scrollOffset'
              viewportHeight' getFrameMetrics' createViewToken' renderRange')) = None"
  proof (cases "truthy_bool (waitForInteraction (this_config this))
            \<and> \<not> this_hasInteracted (after_gate this updateTime scrollOffset getFrameMetrics)")
    case True
    then show ?thesis by (simp add: onUpdate_suppressed_quiet)
  next
    case False
    have "this_viewableIndices (fst ?r) = indices"
      using onUpdate_viewableIndices [OF conjunct1 [OF a] False] .
    then show ?thesis
      using onUpdate_discarded [of "fst ?r" itemCount' scrollOffset' viewportHeight'
          getFrameMetrics' renderRange' scanned' updateTime' handle' createViewToken'] a
      by simp
  qed
qed

theorem discarded_update_witness:
  "update_indices example_helper 1 0 100 offscreen_metrics None
      = Inr (this_viewableIndices example_helper, [0])
   \<and> onUpdate example_helper 1000 7 1 0 100 offscreen_metrics example_token None
      = (example_helper\<lparr>this_lastUpdateTime := 1000\<rparr>,
         \<lparr>lookups = [0, 0], timeout = None, notified = None, thrown = None\<rparr>)
   \<and> update_indices example_helper 5 0 100 example_metrics None = Inr ([0, 2], [0, 1, 2, 3])
   \<and> notified (snd (onUpdate example_helper 1000 7 5 0 100 example_metrics example_token None))
      = Some \<lparr>viewableItems = [example_token 0 True, example_token 2 True],
              changed = [example_token 0 True, example_token 2 True]\<rparr>
   \<and> notified (snd (onUpdate
         (fst (onUpdate example_helper 1000 7 5 0 100 example_metrics example_token None))
         1016 8 5 0 100 example_metrics example_token None)) = None"
proof -
  let ?r = "onUpdate example_helper 1000 7 5 0 100 example_metrics example_token None"
  have u: "update_indices example_helper 1 0 100 offscreen_metrics None
      = Inr (this_viewableIndices example_helper, [0])"
    by code_simp
  have r0: "onUpdate example_helper 1000 7 1 0 100 offscreen_metrics example_token None
      = (example_helper\<lparr>this_lastUpdateTime := 1000\<rparr>,
         \<lparr>lookups = [0, 0], timeout = None, notified = None, thrown = None\<rparr>)"
    by code_simp
  have v: "update_indices example_helper 5 0 100 example_metrics None = Inr ([0, 2], [0, 1, 2, 3])"
    by code_simp
  have v2: "update_indices (fst ?r) 5 0 100 example_metrics None = Inr ([0, 2], [0, 1, 2, 3])"
    using update_indices_config [of "fst ?r" example_helper] v by (simp add: onUpdate_keeps)
  have n1: "notified (snd ?r)
      = Some \<lparr>viewableItems = [example_token 0 True, example_token 2 True],
              changed = [example_token 0 True, example_token 2 True]\<rparr>"
    by code_simp
  have "timeout (snd (onUpdate example_helper 1000 7 1 0 100 offscreen_metrics example_token None))
      = None"
    using discarded_update [where this = example_helper and itemCount = 1 and scrollOffset = 0
        and viewportHeight = 100 and getFrameMetrics = offscreen_metrics and renderRange = None
        and scanned = "[0]" and updateTime = 1000 and handle = 7
        and createViewToken = example_token] u
    by simp
  moreover have "notified (snd (onUpdate (fst ?r) 1016 8 5 0 100 example_metrics example_token None))
      = None"
    using discarded_update [where this = example_helper and itemCount = 5 and scrollOffset = 0
        and viewportHeight = 100 and getFrameMetrics = example_metrics and renderRange = None
        and scanned = "[0, 1, 2, 3]" and indices = "[0, 2]" and updateTime = 1000 and handle = 7
        and createViewToken = example_token and itemCount' = 5 and scrollOffset' = 0
        and viewportHeight' = 100 and getFrameMetrics' = example_metrics and renderRange' = None
        and scanned' = "[0, 1, 2, 3]" and updateTime' = 1016 and handle' = 8
        and createViewToken' = example_token] v v2 n1
    by simp
  ultimately show ?thesis
    using u r0 v n1 by simp
qed

subsection \<open>Debounce\<close>

text \<open>
  C1. Where \<open>minimumViewTime\<close> is configured and the elapsed time is less than it,
  \<open>onUpdate\<close> is to defer the finalize by a timer; with \<open>minimumViewTime = 500\<close> an item
  that appears and disappears within 500 ms is never to be reported viewable. The source
  reads \<open>minViewTime\<close>, a property that the configuration's type does not declare. With
  \<open>minimumViewTime = 500\<close>: the update at time 1000 (elapsed time 0), at which item 0 is
  entirely visible, sets no timer and reports item 0 viewable at once; the update at time
  1100, at which the item has scrolled out, reports that it has left.
\<close>

theorem minimumViewTime_not_read:
  "minimumViewTime documented_config = Some 500
   \<and> minViewTime documented_config = None
   \<and> update_elapsed (fresh documented_config :: nat ViewabilityHelper) 1000 one_item = 0
   \<and> onUpdate (fresh documented_config) 1000 7 1 0 100 one_item example_token None
      = ((fresh documented_config)\<lparr>this_lastUpdateTime := 1000, this_viewableIndices := [0],
            this_viewableItems := [(''a'', example_token 0 True)]\<rparr>,
         \<lparr>lookups = [0, 0], timeout = None,
          notified = Some \<lparr>viewableItems = [example_token 0 True],
                           changed = [example_token 0 True]\<rparr>,
          thrown = None\<rparr>)
   \<and> onUpdate ((fresh documented_config)\<lparr>this_lastUpdateTime := 1000, this_viewableIndices := [0],
            this_viewableItems := [(''a'', example_token 0 True)]\<rparr>)
        1100 8 1 200 100 one_item example_token None
      = ((fresh documented_config)\<lparr>this_lastUpdateTime := 1100\<rparr>,
         \<lparr>lookups = [0], timeout = None,
          notified = Some \<lparr>viewableItems = [], changed = [example_token 0 False]\<rparr>,
          thrown = None\<rparr>)"
  by code_simp

text \<open>The deferred finalize is there, under the property \<open>minViewTime\<close>: the same two
  updates set a timer each, and the first timer, when it fires, finds item 0 no longer
  among the current indices and reports nothing.\<close>

lemma deferred_finalize_under_minViewTime:
  "onUpdate (fresh undeclared_config) 1000 7 1 0 100 one_item example_token None
      = ((fresh undeclared_config)\<lparr>this_lastUpdateTime := 1000, this_viewableIndices := [0],
            this_timers := {7}\<rparr>,
         \<lparr>lookups = [0, 0], timeout = Some (7, 500, [0]), notified = None, thrown = None\<rparr>)"
  "onUpdate ((fresh undeclared_config)\<lparr>this_lastUpdateTime := 1000, this_viewableIndices := [0],
            this_timers := {7}\<rparr>)
        1100 8 1 200 100 one_item example_token None
      = ((fresh undeclared_config)\<lparr>this_lastUpdateTime := 1100, this_timers := {7, 8}\<rparr>,
         \<lparr>lookups = [0], timeout = Some (8, 500, []), notified = None, thrown = None\<rparr>)"
  "timerFired ((fresh undeclared_config)\<lparr>this_lastUpdateTime := 1100, this_timers := {7, 8}\<rparr>)
        7 [0] example_token
      = ((fresh undeclared_config)\<lparr>this_lastUpdateTime := 1100, this_timers := {8}\<rparr>, None)"
  by code_simp+

subsection \<open>Interaction latch\<close>

lemma step_hasInteracted:
  "this_hasInteracted this \<Longrightarrow> this_hasInteracted (step this op)"
proof (cases op)
  case (OnUpdate t h n so vh g c rr)
  assume "this_hasInteracted this"
  then show ?thesis
    by (simp add: OnUpdate onUpdate_keeps after_gate_keeps)
next
  case (TimerFired h vs c)
  assume "this_hasInteracted this"
  then show ?thesis
    by (simp add: TimerFired timerFired_def onUpdateSync_keeps)
next
  case RecordInteraction
  then show ?thesis by (simp add: recordInteraction_def)
next
  case Dispose
  assume "this_hasInteracted this"
  then show ?thesis by (simp add: Dispose dispose_def)
qed

lemma run_hasInteracted:
  "this_hasInteracted this \<Longrightarrow> this_hasInteracted (run this ops)"
  unfolding run_def
  by (induction ops arbitrary: this) (simp_all add: step_hasInteracted)

text \<open>
  C9. \<open>hasInteracted\<close> is monotone: once true, no sequence of operations (updates, timer
  callbacks, \<open>recordInteraction\<close>, \<open>dispose\<close>; \<open>computeViewableItems\<close> changes nothing)
  resets it. \<open>recordInteraction\<close> latches it whatever the scroll offset. With
  \<open>waitForInteraction = true\<close> and no \<open>scrollInteractionFilter\<close>, an update of a helper
  that has not interacted latches it iff the scroll offset is not zero.
\<close>

theorem hasInteracted_latch:
  "(this_hasInteracted this \<longrightarrow> this_hasInteracted (run this ops))
   \<and> this_hasInteracted (recordInteraction this)
   \<and> (waitForInteraction (this_config this) = Some True
       \<and> scrollInteractionFilter (this_config this) = None
       \<and> \<not> this_hasInteracted this
      \<longrightarrow> this_hasInteracted
            (fst (onUpdate this updateTime handle itemCount scrollOffset viewportHeight
                    getFrameMetrics createViewToken renderRange))
          = (scrollOffset \<noteq> 0))"
  by (simp add: run_hasInteracted recordInteraction_def onUpdate_keeps after_gate_keeps
      interaction_latches_def truthy_bool_def)

theorem hasInteracted_latch_witness:
  "\<not> this_hasInteracted (run waiting_helper [example_update 1000 0])
   \<and> this_hasInteracted (run waiting_helper [example_update 1000 0, example_update 1016 3])
   \<and> this_hasInteracted
       (run waiting_helper [example_update 1000 0, example_update 1016 3, example_update 1032 0])
   \<and> this_hasInteracted (recordInteraction waiting_helper)"
proof -
  let ?s1 = "run waiting_helper [example_update 1000 0]"
  let ?s2 = "run waiting_helper [example_update 1000 0, example_update 1016 3]"
  have w: "waitForInteraction (this_config waiting_helper) = Some True"
      "scrollInteractionFilter (this_config waiting_helper) = None"
      "\<not> this_hasInteracted waiting_helper"
    by (simp_all add: waiting_helper_def waiting_config_def)
  have s1: "?s1 = fst (onUpdate waiting_helper 1000 7 5 0 100 example_metrics example_token None)"
    by (simp add: run_def example_update_def)
  have 1: "\<not> this_hasInteracted ?s1"
    using hasInteracted_latch [of waiting_helper "[]" 1000 7 5 0 100 example_metrics
        example_token None] w
    by (simp add: s1)
  have c1: "waitForInteraction (this_config ?s1) = Some True"
      "scrollInteractionFilter (this_config ?s1) = None"
    by (simp_all add: s1 onUpdate_keeps w)
  have s2: "?s2 = fst (onUpdate ?s1 1016 7 5 3 100 example_metrics example_token None)"
    by (simp add: run_def example_update_def)
  have 2: "this_hasInteracted ?s2"
    using hasInteracted_latch [of ?s1 "[]" 1016 7 5 3 100 example_metrics example_token None]
      c1 1
    unfolding s2 [symmetric] by simp
  have 3: "this_hasInteracted (run ?s2 [example_update 1032 0])"
    using hasInteracted_latch [of ?s2 "[example_update 1032 0]"] 2 by simp
  have "run ?s2 [example_update 1032 0]
      = run waiting_helper [example_update 1000 0, example_update 1016 3, example_update 1032 0]"
    by (simp add: run_def)
  then show ?thesis
    using 1 2 3 hasInteracted_latch [of waiting_helper] by simp
qed

subsection \<open>Finalize and diff\<close>

lemma push_appeared_filter:
  "push_appeared prevItems entries acc =
     acc @ map snd (filter (\<lambda>(k, v). \<not> map_has prevItems k) entries)"
  by (induction entries arbitrary: acc) auto

lemma push_disappeared_filter:
  "push_disappeared nextItems entries acc =
     acc @ map (\<lambda>(k, v). v\<lparr>isViewable_vt := False\<rparr>)
             (filter (\<lambda>(k, v). \<not> map_has nextItems k) entries)"
  by (induction entries arbitrary: acc) auto

lemma set_map_set: "set (map_set m k v) \<subseteq> insert (k, v) (set m)"
  by (induction m) (auto split: if_splits)

lemma set_foldl_map_set:
  "set (foldl (\<lambda>m (k, v). map_set m k v) m0 entries) \<subseteq> set m0 \<union> set entries"
proof (induction entries arbitrary: m0)
  case Nil
  then show ?case by simp
next
  case (Cons e entries)
  obtain k v where e: "e = (k, v)" by (cases e)
  have "set (foldl (\<lambda>m (k, v). map_set m k v) (map_set m0 k v) entries)
      \<subseteq> set (map_set m0 k v) \<union> set entries"
    by (rule Cons.IH)
  then show ?case
    using set_map_set [of m0 k v] by (auto simp add: e)
qed

lemma set_new_Map: "set (new_Map entries) \<subseteq> set entries"
  using set_foldl_map_set [of "[]" entries] by (simp add: new_Map_def)

text \<open>
  C7. At every finalize, with \<open>nextItems\<close> the new key-to-token mapping (the tokens that
  \<open>createViewToken\<close> makes, with flag true, for the indices to check that are still among
  the current viewable indices): \<open>changed\<close> holds, for each key of \<open>nextItems\<close> that is not
  in \<open>committedViewableItems\<close>, its new token (viewable, \<open>createViewToken\<close> honouring its
  flag), followed by, for each key of \<open>committedViewableItems\<close> that is not in
  \<open>nextItems\<close>, its previous token with \<open>isViewable\<close> false. The callback is invoked iff
  \<open>changed\<close> is not empty, with all the tokens of \<open>nextItems\<close> and \<open>changed\<close>; the
  committed items are replaced by \<open>nextItems\<close> exactly then, and the helper is unchanged
  otherwise.
\<close>

theorem finalize_diff:
  assumes "onUpdateSync this viewableIndicesToCheck createViewToken = (this', n)"
    and "nextItems = new_Map (map (\<lambda>ii. (key (createViewToken ii True), createViewToken ii True))
            (filter (\<lambda>ii. ii \<in> set (this_viewableIndices this)) viewableIndicesToCheck))"
    and "appeared = map snd (filter (\<lambda>(k, v). \<not> map_has (this_viewableItems this) k) nextItems)"
    and "disappeared = map (\<lambda>(k, v). v\<lparr>isViewable_vt := False\<rparr>)
            (filter (\<lambda>(k, v). \<not> map_has nextItems k) (this_viewableItems this))"
  shows "(appeared @ disappeared \<noteq> [] \<longrightarrow>
            n = Some \<lparr>viewableItems = map snd nextItems, changed = appeared @ disappeared\<rparr>
            \<and> this' = this\<lparr>this_viewableItems := nextItems\<rparr>)
       \<and> (appeared @ disappeared = [] \<longrightarrow> n = None \<and> this' = this)
       \<and> ((\<forall>i. isViewable_vt (createViewToken i True)) \<longrightarrow> (\<forall>v \<in> set appeared. isViewable_vt v))
       \<and> (\<forall>v \<in> set disappeared. \<not> isViewable_vt v)"
proof -
  have run: "onUpdateSync this viewableIndicesToCheck createViewToken =
      (if appeared @ disappeared \<noteq> []
       then (this\<lparr>this_viewableItems := nextItems\<rparr>,
             Some \<lparr>viewableItems = map snd nextItems, changed = appeared @ disappeared\<rparr>)
       else (this, None))"
    unfolding onUpdateSync_def Let_def push_appeared_filter push_disappeared_filter
      assms(2) [symmetric] map_values_def
    by (simp add: assms(3,4))
  have "\<forall>v \<in> set appeared. \<exists>i. v = createViewToken i True"
    using set_new_Map [of "map (\<lambda>ii. (key (createViewToken ii True), createViewToken ii True))
            (filter (\<lambda>ii. ii \<in> set (this_viewableIndices this)) viewableIndicesToCheck)"]
    unfolding assms(2) [symmetric] by (auto simp add: assms(3))
  then have t: "(\<forall>i. isViewable_vt (createViewToken i True)) \<longrightarrow> (\<forall>v \<in> set appeared. isViewable_vt v)"
    by auto
  have f: "\<forall>v \<in> set disappeared. \<not> isViewable_vt v"
    by (auto simp add: assms(4))
  show ?thesis
    using run assms(1) t f by (auto split: if_splits)
qed

theorem finalize_diff_witness:
  "onUpdateSync committed_a [1] example_token
     = (committed_a\<lparr>this_viewableItems := [(''b'', example_token 1 True)]\<rparr>,
        Some \<lparr>viewableItems = [example_token 1 True],
              changed = [example_token 1 True, example_token 0 False]\<rparr>)
   \<and> new_Map (map (\<lambda>ii. (key (example_token ii True), example_token ii True))
            (filter (\<lambda>ii. ii \<in> set (this_viewableIndices committed_a)) [1]))
       = [(''b'', example_token 1 True)]
   \<and> isViewable_vt (example_token 1 True) \<and> \<not> isViewable_vt (example_token 0 False)"
proof -
  obtain this' n where r: "onUpdateSync committed_a [1] example_token = (this', n)"
    by (cases "onUpdateSync committed_a [1] example_token")
  have nx: "[(''b'', example_token 1 True)] =
      new_Map (map (\<lambda>ii. (key (example_token ii True), example_token ii True))
            (filter (\<lambda>ii. ii \<in> set (this_viewableIndices committed_a)) [1]))"
    by (simp add: committed_a_def new_Map_def example_token_def)
  have ap: "[example_token 1 True] = map snd (filter (\<lambda>(k, v). \<not> map_has (this_viewableItems committed_a) k)
      [(''b'', example_token 1 True)])"
    by (simp add: committed_a_def map_has_def)
  have di: "[example_token 0 False] = map (\<lambda>(k, v). v\<lparr>isViewable_vt := False\<rparr>)
            (filter (\<lambda>(k, v). \<not> map_has [(''b'', example_token 1 True)] k) (this_viewableItems committed_a))"
    by (simp add: committed_a_def map_has_def example_token_def)
  show ?thesis
    using finalize_diff [OF r nx ap di] r nx [symmetric]
    by (simp add: example_token_def)
qed

end
